theory Spec2Isabelle
  imports Main "HOL-Library.Char_ord" "HOL-Library.List_Lexorder"
begin

section \<open>Python values and strings\<close>

text \<open>
  The module \<^verbatim>\<open>dwh/query_lib.py\<close> builds SQL predicate texts from a constraint model and
  post-processes the aggregated rows of a Spark query. Strings are byte lists; the order on
  them is the lexicographic order on bytes, which is how Spark compares strings in
  \<^verbatim>\<open>F.min\<close> and \<^verbatim>\<open>F.max\<close>.
\<close>

datatype py_error =
    ValueError string
  | NotImplementedError string
  | TypeError string
  | AttributeError string
  | KeyError string

text \<open>Truthiness as Python tests it in \<^verbatim>\<open>if x:\<close>: \<^verbatim>\<open>None\<close>, the empty string, the
  empty list and the number zero are false.\<close>

definition truthy_str :: "string option \<Rightarrow> bool" where
  "truthy_str s = (case s of None \<Rightarrow> False | Some t \<Rightarrow> t \<noteq> [])"

definition truthy_list :: "'a list option \<Rightarrow> bool" where
  "truthy_list l = (case l of None \<Rightarrow> False | Some xs \<Rightarrow> xs \<noteq> [])"

definition truthy_num :: "'n::zero option \<Rightarrow> bool" where
  "truthy_num v = (case v of None \<Rightarrow> False | Some x \<Rightarrow> x \<noteq> 0)"

text \<open>\<^verbatim>\<open>'{}'.format(v)\<close>: \<^verbatim>\<open>None\<close> is printed as the word None; any other value by the
  printer \<open>fmt\<close> of its type (the identity for a string; Python's own printer for a number,
  which the model takes as a parameter).\<close>

definition py_format :: "('a \<Rightarrow> string) \<Rightarrow> 'a option \<Rightarrow> string" where
  "py_format fmt v = (case v of None \<Rightarrow> ''None'' | Some x \<Rightarrow> fmt x)"

text \<open>\<^verbatim>\<open>sep.join(xs)\<close>.\<close>

fun py_join :: "string \<Rightarrow> string list \<Rightarrow> string" where
  "py_join sep [] = []"
| "py_join sep [x] = x"
| "py_join sep (x # y # ys) = x @ sep @ py_join sep (y # ys)"

text \<open>\<^verbatim>\<open>sep in s\<close> for strings.\<close>

fun py_in :: "string \<Rightarrow> string \<Rightarrow> bool" where
  "py_in sep [] = (sep = [])"
| "py_in sep (c # cs) = (take (length sep) (c # cs) = sep \<or> py_in sep cs)"

text \<open>Splitting a string on a non-empty separator, as \<^verbatim>\<open>str.split\<close> does in Python and
  in pandas: the occurrences of \<open>sep\<close> are found from the left and do not overlap;
  \<open>cur\<close> is the piece being read.\<close>

fun split_from :: "string \<Rightarrow> string \<Rightarrow> string \<Rightarrow> string list" where
  "split_from sep cur [] = [cur]"
| "split_from sep cur (c # cs) =
     (if take (length sep) (c # cs) = sep
      then cur # split_from sep [] (drop (length sep - 1) cs)
      else split_from sep (cur @ [c]) cs)"

section \<open>The sortable key\<close>

definition DATE_VALUE_SEPARATOR :: string where
  "DATE_VALUE_SEPARATOR = ''_SeP_''"

text \<open>\<^verbatim>\<open>merge_date_and_value(d, v)\<close> is \<^verbatim>\<open>'{}{}{}'.format(d, DATE_VALUE_SEPARATOR, v)\<close>.
  Both arguments come from nullable columns.\<close>

definition merge_date_and_value :: "('v \<Rightarrow> string) \<Rightarrow> string option \<Rightarrow> 'v option \<Rightarrow> string" where
  "merge_date_and_value fmt d v =
     py_format (\<lambda>s. s) d @ DATE_VALUE_SEPARATOR @ py_format fmt v"

text \<open>A timestamp is safe for the key when no occurrence of the separator starts inside it,
  whatever value follows: the separator does not occur in the timestamp followed by the first
  four characters of the separator.\<close>

definition sep_safe :: "string \<Rightarrow> bool" where
  "sep_safe d = (\<not> py_in DATE_VALUE_SEPARATOR (d @ butlast DATE_VALUE_SEPARATOR))"

section \<open>The constraint model and the predicate compiler\<close>

datatype Runner = SPARK | BIG_QUERY

record 'n obs_constraints =
  oc_code :: string
  oc_sys_str :: string
  oc_values :: "string list option"
  oc_min_time :: "string option"
  oc_max_time :: "string option"
  oc_min_value :: "'n option"
  oc_max_value :: "'n option"

text \<open>\<^verbatim>\<open>_ObsConstraints.__init__\<close>.\<close>

definition ObsConstraints ::
  "string \<Rightarrow> string list option \<Rightarrow> string option \<Rightarrow> 'n option \<Rightarrow> 'n option \<Rightarrow>
   string option \<Rightarrow> string option \<Rightarrow> 'n obs_constraints" where
  \<open>ObsConstraints code vals value_sys min_value max_value min_time max_time =
     \<lparr>oc_code = code,
      oc_sys_str = (if truthy_str value_sys then ''="'' @ the value_sys @ ''"'' else ''IS NULL''),
      oc_values = vals,
      oc_min_time = min_time,
      oc_max_time = max_time,
      oc_min_value = min_value,
      oc_max_value = max_value\<rparr>\<close>

text \<open>\<^verbatim>\<open>_ObsConstraints.time_constraint\<close>.\<close>

definition time_constraint :: "string option \<Rightarrow> string option \<Rightarrow> string" where
  \<open>time_constraint min_time max_time =
     (if \<not> truthy_str min_time \<and> \<not> truthy_str max_time then ''TRUE''
      else py_join '' AND ''
        ((if truthy_str min_time then [''dateTime >= "'' @ the min_time @ ''"''] else []) @
         (if truthy_str max_time then [''dateTime <= "'' @ the max_time @ ''"''] else [])))\<close>

text \<open>The two branches of \<^verbatim>\<open>_ObsConstraints.sql\<close> that add the value conditions: the
  coded-value one (\<^verbatim>\<open>if self._values\<close>) and the numeric one (the \<^verbatim>\<open>elif\<close>).\<close>

definition coded_value_condition :: "'n obs_constraints \<Rightarrow> string list" where
  \<open>coded_value_condition c =
     [''value.codeableConcept.coding IN ('' @
        py_join '','' (map (\<lambda>v. ''"'' @ v @ ''"'') (the (oc_values c))) @ '')'',
      ''value.codeableConcept.system '' @ oc_sys_str c]\<close>

definition numeric_range_condition :: "('n::zero \<Rightarrow> string) \<Rightarrow> 'n obs_constraints \<Rightarrow> string list" where
  \<open>numeric_range_condition fmt c =
     (if truthy_num (oc_min_value c) \<or> truthy_num (oc_max_value c)
      then (if truthy_num (oc_min_value c)
            then ['' value.quantity.value >= '' @ fmt (the (oc_min_value c)) @ '' '']
            else []) @
           (if truthy_num (oc_max_value c)
            then ['' value.quantity.value <= '' @ fmt (the (oc_max_value c)) @ '' '']
            else [])
      else [])\<close>

text \<open>\<^verbatim>\<open>_ObsConstraints.sql\<close>.\<close>

definition obs_constraints_sql :: "('n::zero \<Rightarrow> string) \<Rightarrow> 'n obs_constraints \<Rightarrow> string" where
  \<open>obs_constraints_sql fmt c =
     (let cl = [time_constraint (oc_min_time c) (oc_max_time c)];
          cl = cl @ [''coding.code="'' @ oc_code c @ ''"''];
          cl = cl @ (if truthy_list (oc_values c) then coded_value_condition c
                     else numeric_range_condition fmt c)
      in ''('' @ py_join '' AND '' cl @ '')'')\<close>

record encounter_constraints =
  ec_location_id :: "string list option"
  ec_type_system :: "string option"
  ec_type_code :: "string list option"

definition EncounterContraints ::
  "string list option \<Rightarrow> string option \<Rightarrow> string list option \<Rightarrow> encounter_constraints" where
  "EncounterContraints locationId typeSystem typeCode =
     \<lparr>ec_location_id = locationId, ec_type_system = typeSystem, ec_type_code = typeCode\<rparr>"

definition has_location :: "encounter_constraints \<Rightarrow> bool" where
  "has_location e = (ec_location_id e \<noteq> None)"

definition has_type :: "encounter_constraints \<Rightarrow> bool" where
  "has_type e = (ec_type_code e \<noteq> None \<or> ec_type_system e \<noteq> None)"

text \<open>\<^verbatim>\<open>_EncounterContraints.sql\<close>, in its three parts.\<close>

definition loc_str :: "encounter_constraints \<Rightarrow> string" where
  \<open>loc_str e =
     (if truthy_list (ec_location_id e)
      then ''locationId IN ('' @
        py_join '','' (map (\<lambda>v. ''"'' @ v @ ''"'') (the (ec_location_id e))) @ '')''
      else ''TRUE'')\<close>

definition type_code_str :: "encounter_constraints \<Rightarrow> string" where
  \<open>type_code_str e =
     (if truthy_list (ec_type_code e)
      then ''encTypeCode IN ('' @
        py_join '','' (map (\<lambda>v. ''"'' @ v @ ''"'') (the (ec_type_code e))) @ '')''
      else ''TRUE'')\<close>

definition type_sys_str :: "encounter_constraints \<Rightarrow> string" where
  \<open>type_sys_str e =
     (if truthy_str (ec_type_system e)
      then ''encTypeSystem="'' @ the (ec_type_system e) @ ''"''
      else ''TRUE'')\<close>

definition encounter_constraints_sql :: "encounter_constraints \<Rightarrow> string" where
  "encounter_constraints_sql e =
     loc_str e @ '' AND '' @ type_code_str e @ '' AND '' @ type_sys_str e"

text \<open>The encounter constraints of the BigQuery subclass, \<^verbatim>\<open>_BigQueryEncounterConstraints\<close>.
  Its constructor sets the attributes \<^verbatim>\<open>location_ids\<close>, \<^verbatim>\<open>type_system\<close> and
  \<^verbatim>\<open>type_codes\<close>; its three methods read \<^verbatim>\<open>_location_id\<close>, \<^verbatim>\<open>_type_code\<close> and
  \<^verbatim>\<open>_type_system\<close>, which are never set, so each of them raises \<^verbatim>\<open>AttributeError\<close>
  at the first attribute it reads.\<close>

record bq_encounter_constraints =
  bq_location_ids :: "string list option"
  bq_type_system :: "string option"
  bq_type_codes :: "string list option"

definition BigQueryEncounterConstraints ::
  "string list option \<Rightarrow> string option \<Rightarrow> string list option \<Rightarrow> bq_encounter_constraints" where
  "BigQueryEncounterConstraints location_ids type_system type_codes =
     \<lparr>bq_location_ids = location_ids, bq_type_system = type_system, bq_type_codes = type_codes\<rparr>"

definition bq_has_location :: "bq_encounter_constraints \<Rightarrow> py_error + bool" where
  "bq_has_location b = Inl (AttributeError ''_location_id'')"

definition bq_has_type :: "bq_encounter_constraints \<Rightarrow> py_error + bool" where
  "bq_has_type b = Inl (AttributeError ''_type_code'')"

definition bq_encounter_constraints_sql :: "bq_encounter_constraints \<Rightarrow> py_error + string" where
  "bq_encounter_constraints_sql b = Inl (AttributeError ''_location_id'')"

text \<open>The object in the attribute \<^verbatim>\<open>_enc_constraint\<close> of a query is of one of the two
  classes, and a call of one of its methods runs the method of its class.\<close>

datatype enc_constraint_object =
    EncounterContraints_obj encounter_constraints
  | BigQueryEncounterConstraints_obj bq_encounter_constraints

definition call_has_location :: "enc_constraint_object \<Rightarrow> py_error + bool" where
  "call_has_location ob =
     (case ob of EncounterContraints_obj e \<Rightarrow> Inr (has_location e)
      | BigQueryEncounterConstraints_obj b \<Rightarrow> bq_has_location b)"

definition call_has_type :: "enc_constraint_object \<Rightarrow> py_error + bool" where
  "call_has_type ob =
     (case ob of EncounterContraints_obj e \<Rightarrow> Inr (has_type e)
      | BigQueryEncounterConstraints_obj b \<Rightarrow> bq_has_type b)"

definition call_sql :: "enc_constraint_object \<Rightarrow> py_error + string" where
  "call_sql ob =
     (case ob of EncounterContraints_obj e \<Rightarrow> Inr (encounter_constraints_sql e)
      | BigQueryEncounterConstraints_obj b \<Rightarrow> bq_encounter_constraints_sql b)"

text \<open>The three classes of query object. The dictionary \<^verbatim>\<open>_code_constraint\<close> is kept as
  the list of its items in insertion order, which is the order Python iterates it in.\<close>

datatype query_class = PatientQuery | SparkPatientQuery | BigQueryPatientQuery

record 'n patient_query =
  pq_class :: query_class
  pq_data_source :: string
  code_constraint :: "(string \<times> 'n obs_constraints) list"
  enc_constraint :: enc_constraint_object
  include_all_codes :: bool
  all_codes_min_time :: "string option"
  all_codes_max_time :: "string option"
  code_system :: "string option"

text \<open>The constructors: \<^verbatim>\<open>PatientQuery.__init__\<close> and the two subclasses'. All start
  without constraints; the BigQuery subclass installs an encounter constraint of its own
  class.\<close>

definition new_query :: "query_class \<Rightarrow> string \<Rightarrow> string option \<Rightarrow> 'n patient_query" where
  "new_query cls data_source cs =
     \<lparr>pq_class = cls,
      pq_data_source = data_source,
      code_constraint = [],
      enc_constraint =
        (if cls = BigQueryPatientQuery
         then BigQueryEncounterConstraints_obj (BigQueryEncounterConstraints None None None)
         else EncounterContraints_obj (EncounterContraints None None None)),
      include_all_codes = False,
      all_codes_min_time = None,
      all_codes_max_time = None,
      code_system = cs\<rparr>"

text \<open>\<^verbatim>\<open>patient_query_factory\<close>. Its last line raises for a runner that is neither member
  of the enumeration; no value of \<open>Runner\<close> reaches it.\<close>

fun patient_query_factory :: "Runner \<Rightarrow> string \<Rightarrow> string option \<Rightarrow> py_error + 'n patient_query" where
  "patient_query_factory SPARK data_source cs = Inr (new_query SparkPatientQuery data_source cs)"
| "patient_query_factory BIG_QUERY data_source cs = Inr (new_query BigQueryPatientQuery data_source cs)"

text \<open>The constraint-adding methods change the object in place and return it, or raise. The
  model returns the exception raised, if any, together with the state of the object after
  the call. In the BigQuery subclass the constraint class \<^verbatim>\<open>_BigQueryObsConstraints\<close> has no
  constructor taking arguments, so building the constraint raises after the duplicate check.\<close>

definition include_obs_in_value_and_time_range ::
  "string \<Rightarrow> 'n option \<Rightarrow> 'n option \<Rightarrow> string option \<Rightarrow> string option \<Rightarrow>
   'n patient_query \<Rightarrow> py_error option \<times> 'n patient_query" where
  "include_obs_in_value_and_time_range code min_val max_val min_time max_time q =
     (if code \<in> set (map fst (code_constraint q))
      then (Some (ValueError (''Duplicate constraints for code '' @ code)), q)
      else if pq_class q = BigQueryPatientQuery
      then (Some (TypeError ''_BigQueryObsConstraints() takes no arguments''), q)
      else (None, q\<lparr>code_constraint := code_constraint q @
              [(code, ObsConstraints code None (code_system q) min_val max_val min_time max_time)]\<rparr>))"

definition include_obs_values_in_time_range ::
  "string \<Rightarrow> string list option \<Rightarrow> string option \<Rightarrow> string option \<Rightarrow>
   'n patient_query \<Rightarrow> py_error option \<times> 'n patient_query" where
  "include_obs_values_in_time_range code vals min_time max_time q =
     (if code \<in> set (map fst (code_constraint q))
      then (Some (ValueError (''Duplicate constraints for code '' @ code)), q)
      else if pq_class q = BigQueryPatientQuery
      then (Some (TypeError ''_BigQueryObsConstraints() takes no arguments''), q)
      else (None, q\<lparr>code_constraint := code_constraint q @
              [(code, ObsConstraints code vals (code_system q) None None min_time max_time)]\<rparr>))"

definition include_all_other_codes ::
  "bool \<Rightarrow> string option \<Rightarrow> string option \<Rightarrow> 'n patient_query \<Rightarrow> 'n patient_query" where
  "include_all_other_codes include min_time max_time q =
     q\<lparr>include_all_codes := include,
       all_codes_min_time := min_time,
       all_codes_max_time := max_time\<rparr>"

text \<open>\<^verbatim>\<open>encounter_constraints\<close>, which the BigQuery subclass overrides to install a
  constraint of its own class.\<close>

definition encounter_constraints ::
  "string list option \<Rightarrow> string option \<Rightarrow> string list option \<Rightarrow> 'n patient_query \<Rightarrow> 'n patient_query" where
  "encounter_constraints locationId typeSystem typeCode q =
     q\<lparr>enc_constraint :=
         (if pq_class q = BigQueryPatientQuery
          then BigQueryEncounterConstraints_obj
                 (BigQueryEncounterConstraints locationId typeSystem typeCode)
          else EncounterContraints_obj (EncounterContraints locationId typeSystem typeCode))\<rparr>"

text \<open>\<^verbatim>\<open>PatientQuery._all_obs_constraints\<close> and \<^verbatim>\<open>PatientQuery.all_constraints_sql\<close>.
  The encounter constraint is an object, which Python takes as true, so the branch of
  \<^verbatim>\<open>all_constraints_sql\<close> that writes \<^verbatim>\<open>TRUE\<close> for a missing one is never taken.
  The observation part is built first; then the \<^verbatim>\<open>sql\<close> method of the encounter
  constraint is called, which raises on a constraint of the BigQuery class.\<close>

definition all_obs_constraints :: "('n::zero \<Rightarrow> string) \<Rightarrow> 'n patient_query \<Rightarrow> string" where
  \<open>all_obs_constraints fmt q =
     (if code_constraint q = []
      then (if include_all_codes q then ''TRUE'' else ''FALSE'')
      else
        let constraints_str =
              py_join '' OR '' (map (\<lambda>(code, c). obs_constraints_sql fmt c) (code_constraint q))
        in if \<not> include_all_codes q then ''('' @ constraints_str @ '')''
           else
             let others_str = py_join '' AND ''
                   (map (\<lambda>(code, c). ''coding.code!="'' @ code @ ''"'') (code_constraint q) @
                    [time_constraint (all_codes_min_time q) (all_codes_max_time q)])
             in ''('' @ constraints_str @ '' OR ('' @ others_str @ ''))'')\<close>

definition all_constraints_sql :: "('n::zero \<Rightarrow> string) \<Rightarrow> 'n patient_query \<Rightarrow> py_error + string" where
  "all_constraints_sql fmt q =
     (let obs_str = all_obs_constraints fmt q
      in case call_sql (enc_constraint q) of
           Inl err \<Rightarrow> Inl err
         | Inr enc_str \<Rightarrow> Inr (obs_str @ '' AND '' @ enc_str))"

section \<open>Records of the data source and the flat views\<close>

text \<open>The three Parquet collections, with the fields the module reads. A repeated field is a
  nullable array; every scalar field is nullable. The Spark class reads the collections once
  and keeps them; the model takes their contents as an argument of the views.\<close>

record fhir_coding =
  cd_system :: "string option"
  cd_code :: "string option"

record 'n obs_value =
  quantity_value :: "'n option"
  codeableConcept_coding :: "fhir_coding list option"

record 'n observation =
  code_coding :: "fhir_coding list option"
  obs_value :: "'n obs_value"
  effective_dateTime :: "string option"
  subject_patientId :: "string option"
  context_EncounterId :: "string option"

record enc_location =
  location_LocationId :: "string option"
  location_display :: "string option"

record enc_type =
  coding_system :: "string option"
  coding_code :: "string option"

record encounter =
  enc_id :: string
  enc_subject_patientId :: "string option"
  enc_location :: "enc_location list option"
  enc_type :: "enc_type list option"
  period_start :: "string option"
  period_end :: "string option"

record patient =
  pt_id :: string
  pt_birthDate :: "string option"
  pt_gender :: "string option"

record 'n data_source =
  src_Patient :: "patient list"
  src_Observation :: "'n observation list"
  src_Encounter :: "encounter list"

text \<open>What the module leaves to Python and Spark: the printer of a number
  (\<^verbatim>\<open>'{}'.format\<close>), \<^verbatim>\<open>F.regexp_replace(column, pattern, '')\<close> (subject first,
  then pattern), and the evaluation of a compiled predicate text in \<^verbatim>\<open>where\<close>, on a
  row of the flat encounter view and on a row of the join.\<close>

record 'n flat_obs =
  fo_coding :: fhir_coding
  fo_valueCoding :: "fhir_coding option"
  fo_value :: "'n obs_value"
  fo_patientId :: "string option"
  fo_dateTime :: "string option"
  fo_dateAndValue :: string
  fo_dateAndValueCode :: string
  fo_encounterId :: "string option"

text \<open>A row of the flat encounter view. The location and type columns are selected only on
  request: \<open>None\<close> stands for columns that are not in the view, \<open>Some None\<close> for the null
  that \<^verbatim>\<open>explode_outer\<close> yields on an empty or null array.\<close>

record flat_enc =
  fe_encounterId :: string
  fe_encPatientId :: "string option"
  fe_first :: "string option"
  fe_last :: "string option"
  fe_locationFlat :: "enc_location option option"
  fe_typeFlat :: "enc_type option option"

record 'n engine =
  fmt_num :: "'n \<Rightarrow> string"
  regexp_replace :: "string \<Rightarrow> string \<Rightarrow> string"
  where_enc :: "string \<Rightarrow> flat_enc \<Rightarrow> bool"
  where_join :: "string \<Rightarrow> 'n flat_obs \<times> flat_enc \<Rightarrow> bool"

section \<open>The flatten stage\<close>

text \<open>\<^verbatim>\<open>F.explode\<close> drops a row whose array is null or empty; \<^verbatim>\<open>F.explode_outer\<close>
  keeps it, once, with a null element.\<close>

definition explode :: "'a list option \<Rightarrow> 'a list" where
  "explode xs = (case xs of None \<Rightarrow> [] | Some ys \<Rightarrow> ys)"

definition explode_outer :: "'a list option \<Rightarrow> 'a option list" where
  "explode_outer xs =
     (case xs of None \<Rightarrow> [None] | Some [] \<Rightarrow> [None] | Some ys \<Rightarrow> map Some ys)"

text \<open>The two filters of \<^verbatim>\<open>_flatten_obs\<close>, read as the comparisons their texts denote:
  \<^verbatim>\<open>coding.system="S"\<close> or \<^verbatim>\<open>coding.system IS NULL\<close>, and
  \<^verbatim>\<open>(valueCoding IS NULL OR valueCoding.system="S")\<close> or
  \<^verbatim>\<open>(valueCoding IS NULL OR valueCoding.system IS NULL)\<close>. A comparison with a null is
  not true.\<close>

definition sys_str_holds :: "string option \<Rightarrow> fhir_coding \<Rightarrow> bool" where
  "sys_str_holds cs c =
     (if truthy_str cs then cd_system c = cs else cd_system c = None)"

definition value_sys_str_holds :: "string option \<Rightarrow> fhir_coding option \<Rightarrow> bool" where
  "value_sys_str_holds cs vc =
     (case vc of None \<Rightarrow> True
      | Some c \<Rightarrow> (if truthy_str cs then cd_system c = cs else cd_system c = None))"

text \<open>\<^verbatim>\<open>_SparkPatientQuery._flatten_obs\<close>.\<close>

definition flatten_one_obs :: "('n \<Rightarrow> string) \<Rightarrow> string option \<Rightarrow> 'n observation \<Rightarrow> 'n flat_obs list" where
  "flatten_one_obs fmt cs ob =
     concat (map (\<lambda>c.
       map (\<lambda>vc.
         \<lparr>fo_coding = c,
          fo_valueCoding = vc,
          fo_value = obs_value ob,
          fo_patientId = subject_patientId ob,
          fo_dateTime = effective_dateTime ob,
          fo_dateAndValue =
            merge_date_and_value fmt (effective_dateTime ob) (quantity_value (obs_value ob)),
          fo_dateAndValueCode =
            merge_date_and_value (\<lambda>s. s) (effective_dateTime ob)
              (case vc of None \<Rightarrow> None | Some v \<Rightarrow> cd_code v),
          fo_encounterId = context_EncounterId ob\<rparr>)
         (filter (value_sys_str_holds cs)
            (explode_outer (codeableConcept_coding (obs_value ob)))))
       (filter (sys_str_holds cs) (explode (code_coding ob))))"

definition flatten_obs :: "('n \<Rightarrow> string) \<Rightarrow> 'n observation list \<Rightarrow> string option \<Rightarrow> 'n flat_obs list" where
  "flatten_obs fmt obs cs = concat (map (flatten_one_obs fmt cs) obs)"

text \<open>\<^verbatim>\<open>_SparkPatientQuery._flatten_encounter\<close>. The rows of one encounter, given
  whether the location columns and the type columns are selected; then the method itself,
  which calls \<^verbatim>\<open>has_location\<close>, \<^verbatim>\<open>has_type\<close> and \<^verbatim>\<open>sql\<close> of the encounter
  constraint in this order, and raises where they do.\<close>

definition flatten_one_encounter ::
  "'n engine \<Rightarrow> bool \<Rightarrow> bool \<Rightarrow> string \<Rightarrow> encounter \<Rightarrow> flat_enc list" where
  "flatten_one_encounter eng with_location with_type base_encounter_url e =
     concat (map (\<lambda>l.
       map (\<lambda>t.
         \<lparr>fe_encounterId = regexp_replace eng (enc_id e) base_encounter_url,
          fe_encPatientId = enc_subject_patientId e,
          fe_first = period_start e,
          fe_last = period_end e,
          fe_locationFlat = l,
          fe_typeFlat = t\<rparr>)
         (if with_type then map Some (explode_outer (enc_type e)) else [None]))
       (if with_location then map Some (explode_outer (enc_location e)) else [None]))"

definition flatten_encounter ::
  "'n engine \<Rightarrow> 'n patient_query \<Rightarrow> encounter list \<Rightarrow> string \<Rightarrow> bool \<Rightarrow>
   py_error + flat_enc list" where
  "flatten_encounter eng q encs base_encounter_url force_location_type_columns =
     (case call_has_location (enc_constraint q) of
        Inl err \<Rightarrow> Inl err
      | Inr hl \<Rightarrow>
     (case call_has_type (enc_constraint q) of
        Inl err \<Rightarrow> Inl err
      | Inr ht \<Rightarrow>
     (case call_sql (enc_constraint q) of
        Inl err \<Rightarrow> Inl err
      | Inr enc_str \<Rightarrow>
          Inr (filter (where_enc eng enc_str)
                 (concat (map (flatten_one_encounter eng
                                 (hl \<or> force_location_type_columns)
                                 (ht \<or> force_location_type_columns)
                                 base_encounter_url) encs))))))"

section \<open>The aggregate stage\<close>

text \<open>\<^verbatim>\<open>F.min\<close> and \<^verbatim>\<open>F.max\<close> skip nulls and are null on a group without a value;
  \<^verbatim>\<open>F.count('*')\<close> counts the rows.\<close>

definition non_null :: "'a option list \<Rightarrow> 'a list" where
  "non_null xs = [y. Some y \<leftarrow> xs]"

definition spark_min :: "'a::linorder option list \<Rightarrow> 'a option" where
  "spark_min xs = (case non_null xs of [] \<Rightarrow> None | y # ys \<Rightarrow> Some (fold min ys y))"

definition spark_max :: "'a::linorder option list \<Rightarrow> 'a option" where
  "spark_max xs = (case non_null xs of [] \<Rightarrow> None | y # ys \<Rightarrow> Some (fold max ys y))"

record 'n agg_obs =
  ag_patientId :: "string option"
  ag_coding :: fhir_coding
  num_obs :: nat
  min_value :: "'n option"
  max_value :: "'n option"
  min_date :: "string option"
  max_date :: "string option"
  min_date_value :: "string option"
  max_date_value :: "string option"
  min_date_value_code :: "string option"
  max_date_value_code :: "string option"

text \<open>\<^verbatim>\<open>_SparkPatientQuery._aggregate_patient_codes\<close>: one row for each pair of
  \<^verbatim>\<open>patientId\<close> and \<^verbatim>\<open>coding\<close>. Spark leaves the order of the groups open; the model
  lists them in the order \<open>remdups\<close> gives.\<close>

definition agg_group :: "string option \<times> fhir_coding \<Rightarrow> ('n::linorder) flat_obs list \<Rightarrow> 'n agg_obs" where
  "agg_group k g =
     \<lparr>ag_patientId = fst k,
      ag_coding = snd k,
      num_obs = length g,
      min_value = spark_min (map (\<lambda>r. quantity_value (fo_value r)) g),
      max_value = spark_max (map (\<lambda>r. quantity_value (fo_value r)) g),
      min_date = spark_min (map fo_dateTime g),
      max_date = spark_max (map fo_dateTime g),
      min_date_value = spark_min (map (\<lambda>r. Some (fo_dateAndValue r)) g),
      max_date_value = spark_max (map (\<lambda>r. Some (fo_dateAndValue r)) g),
      min_date_value_code = spark_min (map (\<lambda>r. Some (fo_dateAndValueCode r)) g),
      max_date_value_code = spark_max (map (\<lambda>r. Some (fo_dateAndValueCode r)) g)\<rparr>"

definition aggregate_patient_codes :: "('n::linorder) flat_obs list \<Rightarrow> 'n agg_obs list" where
  "aggregate_patient_codes flat =
     map (\<lambda>k. agg_group k (filter (\<lambda>r. (fo_patientId r, fo_coding r) = k) flat))
       (remdups (map (\<lambda>r. (fo_patientId r, fo_coding r)) flat))"

record 'n patient_agg_obs =
  pa_patientId :: "string option"
  pa_birthDate :: "string option"
  pa_gender :: "string option"
  pa_code :: "string option"
  pa_num_obs :: nat
  pa_min_value :: "'n option"
  pa_max_value :: "'n option"
  pa_min_date :: "string option"
  pa_max_date :: "string option"
  pa_min_date_value :: "string option"
  pa_max_date_value :: "string option"
  pa_min_date_value_code :: "string option"
  pa_max_date_value_code :: "string option"

text \<open>\<^verbatim>\<open>_SparkPatientQuery._join_patients_agg_obs\<close>: an inner join, so a null
  \<^verbatim>\<open>patientId\<close> matches no patient.\<close>

definition join_patients_agg_obs ::
  "'n engine \<Rightarrow> patient list \<Rightarrow> 'n agg_obs list \<Rightarrow> string \<Rightarrow> 'n patient_agg_obs list" where
  "join_patients_agg_obs eng patients agg base_patient_url =
     concat (map (\<lambda>p.
       map (\<lambda>a.
         \<lparr>pa_patientId = ag_patientId a,
          pa_birthDate = pt_birthDate p,
          pa_gender = pt_gender p,
          pa_code = cd_code (ag_coding a),
          pa_num_obs = num_obs a,
          pa_min_value = min_value a,
          pa_max_value = max_value a,
          pa_min_date = min_date a,
          pa_max_date = max_date a,
          pa_min_date_value = min_date_value a,
          pa_max_date_value = max_date_value a,
          pa_min_date_value_code = min_date_value_code a,
          pa_max_date_value_code = max_date_value_code a\<rparr>)
         (filter (\<lambda>a. ag_patientId a = Some (regexp_replace eng (pt_id p) base_patient_url)) agg))
       patients)"

section \<open>The views\<close>

text \<open>\<^verbatim>\<open>column.str.split(DATE_VALUE_SEPARATOR, expand=True)[1]\<close> in pandas: every string is
  split, the pieces fill the columns \<open>0, 1, \<dots>\<close> of a new frame, which has as many columns
  as the longest split has pieces, and column \<open>1\<close> is read. A row with fewer pieces (or a
  null) has a null there; a frame with no column \<open>1\<close> (no row with two pieces, so also the
  frame without rows) raises \<^verbatim>\<open>KeyError\<close>.\<close>

definition split_pieces :: "string option \<Rightarrow> string list" where
  "split_pieces s = (case s of None \<Rightarrow> [] | Some t \<Rightarrow> split_from DATE_VALUE_SEPARATOR [] t)"

definition second_piece :: "string option \<Rightarrow> string option" where
  "second_piece s = (case split_pieces s of a # b # rest \<Rightarrow> Some b | _ \<Rightarrow> None)"

definition str_split_expand_1 :: "string option list \<Rightarrow> py_error + string option list" where
  "str_split_expand_1 col =
     (if list_ex (\<lambda>s. 2 \<le> length (split_pieces s)) col
      then Inr (map second_piece col)
      else Inl (KeyError ''1''))"

record 'n patient_obs_row =
  v_patientId :: "string option"
  v_birthDate :: "string option"
  v_gender :: "string option"
  v_code :: "string option"
  v_num_obs :: nat
  v_min_value :: "'n option"
  v_max_value :: "'n option"
  v_min_date :: "string option"
  v_max_date :: "string option"
  v_first_value :: "string option"
  v_last_value :: "string option"
  v_first_value_code :: "string option"
  v_last_value_code :: "string option"

text \<open>The end of \<^verbatim>\<open>_SparkPatientQuery.get_patient_obs_view\<close>: the four columns are added
  in the order \<^verbatim>\<open>last_value\<close>, \<^verbatim>\<open>first_value\<close>, \<^verbatim>\<open>last_value_code\<close>,
  \<^verbatim>\<open>first_value_code\<close>, and the thirteen columns of the result are selected.\<close>

definition view_row ::
  "'n patient_agg_obs \<Rightarrow> string option \<Rightarrow> string option \<Rightarrow> string option \<Rightarrow> string option \<Rightarrow>
   'n patient_obs_row" where
  "view_row r lv fv lvc fvc =
     \<lparr>v_patientId = pa_patientId r,
      v_birthDate = pa_birthDate r,
      v_gender = pa_gender r,
      v_code = pa_code r,
      v_num_obs = pa_num_obs r,
      v_min_value = pa_min_value r,
      v_max_value = pa_max_value r,
      v_min_date = pa_min_date r,
      v_max_date = pa_max_date r,
      v_first_value = fv,
      v_last_value = lv,
      v_first_value_code = fvc,
      v_last_value_code = lvc\<rparr>"

fun zip_view ::
  "'n patient_agg_obs list \<Rightarrow> string option list \<Rightarrow> string option list \<Rightarrow> string option list \<Rightarrow>
   string option list \<Rightarrow> 'n patient_obs_row list" where
  "zip_view (r # rs) (a # as) (b # bs) (c # cs) (d # ds) = view_row r a b c d # zip_view rs as bs cs ds"
| "zip_view rs as bs cs ds = []"

definition add_first_last_values :: "'n patient_agg_obs list \<Rightarrow> py_error + 'n patient_obs_row list" where
  "add_first_last_values df =
     (case str_split_expand_1 (map pa_max_date_value df) of
        Inl e \<Rightarrow> Inl e
      | Inr lv \<Rightarrow>
     (case str_split_expand_1 (map pa_min_date_value df) of
        Inl e \<Rightarrow> Inl e
      | Inr fv \<Rightarrow>
     (case str_split_expand_1 (map pa_max_date_value_code df) of
        Inl e \<Rightarrow> Inl e
      | Inr lvc \<Rightarrow>
     (case str_split_expand_1 (map pa_min_date_value_code df) of
        Inl e \<Rightarrow> Inl e
      | Inr fvc \<Rightarrow> Inr (zip_view df lv fv lvc fvc)))))"

text \<open>The Spark part of \<^verbatim>\<open>_SparkPatientQuery.get_patient_obs_view\<close>: the flat
  observations are joined with the flat encounters on \<^verbatim>\<open>encounterId\<close> (an inner join: a
  null matches nothing), filtered by the compiled predicate, aggregated and joined with the
  patients. The aggregates read columns of the observation side only. The encounters are
  flattened before the predicate is compiled, and an exception of either step ends the
  call.\<close>

definition obs_enc_join :: "'n flat_obs list \<Rightarrow> flat_enc list \<Rightarrow> ('n flat_obs \<times> flat_enc) list" where
  "obs_enc_join flat_obs flat_encs =
     concat (map (\<lambda>ob.
       map (\<lambda>e. (ob, e)) (filter (\<lambda>e. Some (fe_encounterId e) = fo_encounterId ob) flat_encs))
       flat_obs)"

definition patient_agg_obs_df ::
  "('n::{linorder,zero}) engine \<Rightarrow> 'n patient_query \<Rightarrow> 'n data_source \<Rightarrow> string \<Rightarrow>
   py_error + 'n patient_agg_obs list" where
  "patient_agg_obs_df eng q src base_url =
     (let base_patient_url = base_url @ ''Patient/'';
          flat_obs = flatten_obs (fmt_num eng) (src_Observation src) (code_system q)
      in case flatten_encounter eng q (src_Encounter src) (base_url @ ''Encounter/'') False of
           Inl err \<Rightarrow> Inl err
         | Inr flat_encs \<Rightarrow>
        (case all_constraints_sql (fmt_num eng) q of
           Inl err \<Rightarrow> Inl err
         | Inr constraints \<Rightarrow>
             let join_df = filter (where_join eng constraints) (obs_enc_join flat_obs flat_encs);
                 agg_obs_df = aggregate_patient_codes (map fst join_df)
             in Inr (join_patients_agg_obs eng (src_Patient src) agg_obs_df base_patient_url)))"

text \<open>\<^verbatim>\<open>get_patient_obs_view\<close>: only the Spark subclass overrides the method of the base
  class, which raises.\<close>

definition get_patient_obs_view ::
  "('n::{linorder,zero}) engine \<Rightarrow> 'n patient_query \<Rightarrow> 'n data_source \<Rightarrow> string \<Rightarrow>
   py_error + 'n patient_obs_row list" where
  "get_patient_obs_view eng q src base_url =
     (case pq_class q of
        SparkPatientQuery \<Rightarrow>
          (case patient_agg_obs_df eng q src base_url of
             Inl err \<Rightarrow> Inl err
           | Inr df \<Rightarrow> add_first_last_values df)
      | PatientQuery \<Rightarrow> Inl (NotImplementedError ''This should be implemented by sub-classes!'')
      | BigQueryPatientQuery \<Rightarrow> Inl (NotImplementedError ''This should be implemented by sub-classes!''))"

record enc_view_row =
  ev_encPatientId :: "string option"
  ev_location :: "(string option \<times> string option) option"
  ev_type :: "(string option \<times> string option) option"
  num_encounters :: nat
  firstDate :: "string option"
  lastDate :: "string option"

text \<open>The columns \<^verbatim>\<open>locationId\<close>, \<^verbatim>\<open>locationDisplay\<close> and \<^verbatim>\<open>encTypeSystem\<close>,
  \<^verbatim>\<open>encTypeCode\<close> of a flat encounter row, when the view has them.\<close>

definition location_columns :: "flat_enc \<Rightarrow> (string option \<times> string option) option" where
  "location_columns r =
     map_option (\<lambda>l. case l of None \<Rightarrow> (None, None)
                     | Some loc \<Rightarrow> (location_LocationId loc, location_display loc))
       (fe_locationFlat r)"

definition type_columns :: "flat_enc \<Rightarrow> (string option \<times> string option) option" where
  "type_columns r =
     map_option (\<lambda>t. case t of None \<Rightarrow> (None, None)
                     | Some ty \<Rightarrow> (coding_system ty, coding_code ty))
       (fe_typeFlat r)"

text \<open>\<^verbatim>\<open>_SparkPatientQuery.get_patient_encounter_view\<close>: the groups of the flat rows by
  the selected columns, with their aggregates.\<close>

definition group_encounters ::
  "bool \<Rightarrow> bool \<Rightarrow> flat_enc list \<Rightarrow> enc_view_row list" where
  "group_encounters with_location with_type flat_encs =
     (let column_list = (\<lambda>r.
            (fe_encPatientId r,
             if with_location then location_columns r else None,
             if with_type then type_columns r else None))
      in map (\<lambda>k.
           let g = filter (\<lambda>r. column_list r = k) flat_encs
           in \<lparr>ev_encPatientId = fst k,
               ev_location = fst (snd k),
               ev_type = snd (snd k),
               num_encounters = length g,
               firstDate = spark_min (map fe_first g),
               lastDate = spark_max (map fe_last g)\<rparr>)
         (remdups (map column_list flat_encs)))"

definition spark_encounter_view ::
  "'n engine \<Rightarrow> 'n patient_query \<Rightarrow> 'n data_source \<Rightarrow> string \<Rightarrow> bool \<Rightarrow>
   py_error + enc_view_row list" where
  "spark_encounter_view eng q src base_url force_location_type_columns =
     (case flatten_encounter eng q (src_Encounter src) (base_url @ ''Encounter/'')
             force_location_type_columns of
        Inl err \<Rightarrow> Inl err
      | Inr flat_encs \<Rightarrow>
     (case call_has_location (enc_constraint q) of
        Inl err \<Rightarrow> Inl err
      | Inr hl \<Rightarrow>
     (case call_has_type (enc_constraint q) of
        Inl err \<Rightarrow> Inl err
      | Inr ht \<Rightarrow>
          Inr (group_encounters (hl \<or> force_location_type_columns)
                 (ht \<or> force_location_type_columns) flat_encs))))"

text \<open>\<^verbatim>\<open>_build_in_list_with_quotes\<close> and \<^verbatim>\<open>_BigQueryPatientQuery._build_encounter_query\<close>,
  which returns the text of a query on the encounter table.\<close>

definition build_in_list_with_quotes :: "string list \<Rightarrow> string" where
  \<open>build_in_list_with_quotes vals = py_join '','' (map (\<lambda>x. ''"'' @ x @ ''"'') vals)\<close>

definition newline :: string where
  "newline = [CHR 0x0A]"

definition apostrophe :: string where
  "apostrophe = [CHR 0x27]"

definition build_encounter_query ::
  "string \<Rightarrow> string \<Rightarrow> string \<Rightarrow> string list option \<Rightarrow> string option \<Rightarrow> string list option \<Rightarrow>
   bool \<Rightarrow> string" where
  \<open>build_encounter_query bq_dataset base_url table_name location_ids type_system type_codes
       force_location_type_columns =
     (let sql_template =
            newline @
            ''    WITH S AS ('' @ newline @
            ''          select * from '' @ bq_dataset @ ''.'' @ table_name @ newline @
            ''          )'' @ newline @
            ''          select replace(S.id, '' @ apostrophe @ base_url @ apostrophe @ '', '' @
              apostrophe @ apostrophe @ '') as encounterId,'' @ newline @
            ''          S.subject.PatientId as encPatientId,'' @ newline @
            ''          S.period.start as first,'' @ newline @
            ''          S.period.end as last,'' @ newline @
            ''          C.system, C.code,'' @ newline @
            ''          L.location.LocationId, L.location.display'' @ newline @
            ''          from S, unnest(s.type) as T, unnest(T.coding) as C left join unnest(s.location) as L'' @ newline @
            ''          --C.system = 'system3000' and C.code = 'code3000'' @ apostrophe @ newline @
            ''          --and L.location.locationId in ('test')'' @ newline @
            ''    '';
          clause_location_id =
            (if truthy_list location_ids
             then [''L.location.locationId in ('' @ build_in_list_with_quotes (the location_ids) @ '')'']
             else []);
          clause_type_system =
            (if truthy_str type_system
             then [''C.system = '' @ apostrophe @ the type_system @ apostrophe]
             else []);
          clause_type_codes =
            (if truthy_list type_codes
             then [''C.code in ('' @ build_in_list_with_quotes (the type_codes) @ '')'']
             else []);
          where_clause = py_join '' and ''
            (filter (\<lambda>x. x \<noteq> []) (clause_location_id @ clause_type_system @ clause_type_codes))
      in if where_clause \<noteq> [] then sql_template @ '' where '' @ where_clause else sql_template)\<close>

text \<open>\<^verbatim>\<open>get_patient_encounter_view\<close>: the Spark subclass aggregates the flat encounters; the
  BigQuery subclass reads the attributes \<^verbatim>\<open>location_ids\<close>, \<^verbatim>\<open>type_system\<close> and
  \<^verbatim>\<open>type_codes\<close> of its encounter constraint (which a constraint of the other class does
  not have), sends the text it builds to the BigQuery client (\<open>client_query\<close>, which the
  model takes as a parameter) and returns the client's frame; the base class raises.\<close>

datatype 'df encounter_view = SparkFrame "enc_view_row list" | BigQueryFrame 'df

definition get_patient_encounter_view ::
  "'n engine \<Rightarrow> (string \<Rightarrow> 'df) \<Rightarrow> 'n patient_query \<Rightarrow> 'n data_source \<Rightarrow> string \<Rightarrow> bool \<Rightarrow>
   py_error + 'df encounter_view" where
  "get_patient_encounter_view eng client_query q src base_url force_location_type_columns =
     (case pq_class q of
        SparkPatientQuery \<Rightarrow>
          (case spark_encounter_view eng q src base_url force_location_type_columns of
             Inl err \<Rightarrow> Inl err
           | Inr rows \<Rightarrow> Inr (SparkFrame rows))
      | BigQueryPatientQuery \<Rightarrow>
          (case enc_constraint q of
             BigQueryEncounterConstraints_obj b \<Rightarrow>
               Inr (BigQueryFrame (client_query
                 (build_encounter_query (pq_data_source q) base_url ''encounter''
                    (bq_location_ids b) (bq_type_system b) (bq_type_codes b)
                    force_location_type_columns)))
           | EncounterContraints_obj e \<Rightarrow> Inl (AttributeError ''location_ids''))
      | PatientQuery \<Rightarrow> Inl (NotImplementedError ''This should be implemented by sub-classes!''))"

section \<open>Example data\<close>

text \<open>A printer of integers in decimal and an engine for the examples: it removes a leading
  occurrence of the pattern from an identifier, and takes a predicate text as true on every
  row unless the text starts with \<^verbatim>\<open>FALSE\<close>.\<close>

fun show_nat :: "nat \<Rightarrow> string" where
  "show_nat n =
     (if n < 10 then [''0123456789'' ! n]
      else show_nat (n div 10) @ [''0123456789'' ! (n mod 10)])"

declare show_nat.simps [simp del]

definition show_int :: "int \<Rightarrow> string" where
  "show_int i = (if i < 0 then ''-'' @ show_nat (nat (- i)) else show_nat (nat i))"

definition ex_engine :: "int engine" where
  "ex_engine =
     \<lparr>fmt_num = show_int,
      regexp_replace = (\<lambda>s p. if take (length p) s = p then drop (length p) s else s),
      where_enc = (\<lambda>t r. take 5 t \<noteq> ''FALSE''),
      where_join = (\<lambda>t r. take 5 t \<noteq> ''FALSE'')\<rparr>"

definition ex_rows :: "(string \<times> string option) list" where
  "ex_rows = [(''2020-06-01'', Some ''140''), (''2020-01-01'', Some ''120'')]"

definition ex_coding :: fhir_coding where
  "ex_coding = \<lparr>cd_system = None, cd_code = Some ''8480-6''\<rparr>"

definition ex_obs :: "string \<Rightarrow> int option \<Rightarrow> int observation" where
  "ex_obs t v =
     \<lparr>code_coding = Some [ex_coding],
      obs_value = \<lparr>quantity_value = v, codeableConcept_coding = None\<rparr>,
      effective_dateTime = Some t,
      subject_patientId = Some ''P1'',
      context_EncounterId = Some ''E1''\<rparr>"

definition ex_locations :: "enc_location list" where
  "ex_locations =
     [\<lparr>location_LocationId = Some ''L1'', location_display = Some ''Ward 1''\<rparr>,
      \<lparr>location_LocationId = Some ''L2'', location_display = Some ''Ward 2''\<rparr>,
      \<lparr>location_LocationId = Some ''L3'', location_display = Some ''Ward 3''\<rparr>]"

definition ex_encounter :: "enc_type list \<Rightarrow> encounter" where
  "ex_encounter tys =
     \<lparr>enc_id = ''http://x/Encounter/E1'',
      enc_subject_patientId = Some ''P1'',
      enc_location = Some ex_locations,
      enc_type = Some tys,
      period_start = Some ''2020-01-01'',
      period_end = Some ''2020-06-01''\<rparr>"

definition ex_types :: "enc_type list" where
  "ex_types =
     [\<lparr>coding_system = Some ''S'', coding_code = Some ''T1''\<rparr>,
      \<lparr>coding_system = Some ''S'', coding_code = Some ''T2''\<rparr>]"

definition ex_patient :: patient where
  "ex_patient =
     \<lparr>pt_id = ''http://x/Patient/P1'', pt_birthDate = Some ''1980-02-03'', pt_gender = Some ''female''\<rparr>"

definition ex_source :: "int observation list \<Rightarrow> int data_source" where
  "ex_source obs =
     \<lparr>src_Patient = [ex_patient], src_Observation = obs, src_Encounter = [ex_encounter []]\<rparr>"

definition ex_query :: "int patient_query" where
  "ex_query = include_all_other_codes True None None (new_query SparkPatientQuery ''/data'' None)"








definition ex_flat_row :: "int flat_obs" where
  "ex_flat_row =
     \<lparr>fo_coding = ex_coding,
      fo_valueCoding = None,
      fo_value = \<lparr>quantity_value = Some 120, codeableConcept_coding = None\<rparr>,
      fo_patientId = Some ''P1'', fo_dateTime = Some ''2020-01-01'',
      fo_dateAndValue = ''2020-01-01_SeP_120'',
      fo_dateAndValueCode = ''2020-01-01_SeP_None'',
      fo_encounterId = Some ''E1''\<rparr>"
section \<open>Splitting a key\<close>

lemma split_from_no_sep:
  "sep \<noteq> [] \<Longrightarrow> \<not> py_in sep s \<Longrightarrow> split_from sep cur s = [cur @ s]"
  by (induction s arbitrary: cur) auto

lemma take_sep_prefix:
  assumes "sep \<noteq> []"
  shows "take (length sep) ((x # d) @ sep @ v) = take (length sep) ((x # d) @ butlast sep)"
proof -
  have "(x # d) @ sep @ v = ((x # d) @ butlast sep) @ ([last sep] @ v)"
    using assms by (metis append.assoc append_butlast_last_id)
  moreover have "length sep \<le> length ((x # d) @ butlast sep)"
    by simp
  ultimately show ?thesis by (metis append_Nil2 diff_is_0_eq' take_0 take_append)
qed

lemma split_from_first:
  "sep \<noteq> [] \<Longrightarrow> \<not> py_in sep (d @ butlast sep) \<Longrightarrow>
   split_from sep cur (d @ sep @ v) = (cur @ d) # split_from sep [] v"
proof (induction d arbitrary: cur)
  case Nil
  then obtain c cs where sep: "sep = c # cs" by (cases sep) auto
  then show ?case by simp
next
  case (Cons x d)
  from Cons.prems have ne: "take (length sep) ((x # d) @ butlast sep) \<noteq> sep"
    and rest: "\<not> py_in sep (d @ butlast sep)" by auto
  from ne take_sep_prefix[OF Cons.prems(1), of x d v]
  have "take (length sep) ((x # d) @ sep @ v) \<noteq> sep" by simp
  then have "split_from sep cur ((x # d) @ sep @ v) = split_from sep (cur @ [x]) (d @ sep @ v)"
    by simp
  also have "\<dots> = ((cur @ [x]) @ d) # split_from sep [] v"
    using Cons.IH[OF Cons.prems(1) rest] .
  finally show ?case by simp
qed

lemma second_piece_key:
  assumes "sep_safe d" "\<not> py_in DATE_VALUE_SEPARATOR v"
  shows "second_piece (Some (d @ DATE_VALUE_SEPARATOR @ v)) = Some v"
proof -
  have ne: "DATE_VALUE_SEPARATOR \<noteq> []" by (simp add: DATE_VALUE_SEPARATOR_def)
  have "split_from DATE_VALUE_SEPARATOR [] (d @ DATE_VALUE_SEPARATOR @ v) = [d, v]"
    using split_from_first[OF ne, of d "[]" v] split_from_no_sep[OF ne assms(2), of "[]"] assms(1)
    by (simp add: sep_safe_def)
  then show ?thesis by (simp add: second_piece_def split_pieces_def)
qed

text \<open>A timestamp without an underscore, as every ISO-8601 timestamp is, is safe.\<close>

lemma underscore_free_sep_safe: "CHR ''_'' \<notin> set d \<Longrightarrow> sep_safe d"
  unfolding sep_safe_def DATE_VALUE_SEPARATOR_def
  by (induction d) auto

lemma None_word_no_sep: "\<not> py_in DATE_VALUE_SEPARATOR ''None''"
  by (simp add: DATE_VALUE_SEPARATOR_def)

lemma merge_Some:
  "merge_date_and_value fmt (Some d) v = d @ DATE_VALUE_SEPARATOR @ py_format fmt v"
  by (simp add: merge_date_and_value_def py_format_def)

lemma merge_null_value:
  "merge_date_and_value fmt d None = py_format (\<lambda>s. s) d @ DATE_VALUE_SEPARATOR @ ''None''"
  by (simp add: merge_date_and_value_def py_format_def)

section \<open>The order of keys\<close>

text \<open>Between timestamps of one length the order of the keys is the order of the timestamps.\<close>

lemma key_less:
  "length d1 = length d2 \<Longrightarrow> d1 < d2 \<Longrightarrow> d1 @ s1 < d2 @ (s2::string)"
  by (induction d1 d2 rule: list_induct2) auto

lemma key_le_imp:
  assumes "length d1 = length d2" "d1 @ s1 \<le> d2 @ (s2::string)"
  shows "d1 \<le> d2"
proof (rule ccontr)
  assume "\<not> d1 \<le> d2"
  then have "d2 < d1" by simp
  from key_less[OF assms(1)[symmetric] this, of s2 s1] assms(2) show False by simp
qed

section \<open>Minimum and maximum of a column\<close>

lemma non_null_simps:
  "non_null [] = []"
  "non_null (Some x # xs) = x # non_null xs"
  "non_null (None # xs) = non_null xs"
  by (simp_all add: non_null_def)

lemma non_null_map_Some: "non_null (map (\<lambda>x. Some (f x)) xs) = map f xs"
  by (induction xs) (simp_all add: non_null_simps)

lemma non_null_Nil_iff: "non_null xs = [] \<longleftrightarrow> (\<forall>x \<in> set xs. x = None)"
proof (induction xs)
  case Nil
  show ?case by (simp add: non_null_simps)
next
  case (Cons a xs)
  then show ?case by (cases a) (simp_all add: non_null_simps)
qed

lemma spark_min_None_iff: "spark_min xs = None \<longleftrightarrow> (\<forall>x \<in> set xs. x = None)"
  unfolding non_null_Nil_iff[symmetric] by (simp add: spark_min_def split: list.splits)

lemma spark_max_None_iff: "spark_max xs = None \<longleftrightarrow> (\<forall>x \<in> set xs. x = None)"
  unfolding non_null_Nil_iff[symmetric] by (simp add: spark_max_def split: list.splits)

lemma spark_min_Some:
  "xs \<noteq> [] \<Longrightarrow> spark_min (map (\<lambda>x. Some (f x)) xs) = Some (Min (f ` set xs))"
proof -
  assume "xs \<noteq> []"
  then obtain y ys where xs: "xs = y # ys" by (cases xs) auto
  have "fold min (map f ys) (f y) = Min (set (f y # map f ys))"
    by (rule Min.set_eq_fold[symmetric])
  then show ?thesis unfolding spark_min_def non_null_map_Some xs by simp
qed

lemma spark_max_Some:
  "xs \<noteq> [] \<Longrightarrow> spark_max (map (\<lambda>x. Some (f x)) xs) = Some (Max (f ` set xs))"
proof -
  assume "xs \<noteq> []"
  then obtain y ys where xs: "xs = y # ys" by (cases xs) auto
  have "fold max (map f ys) (f y) = Max (set (f y # map f ys))"
    by (rule Max.set_eq_fold[symmetric])
  then show ?thesis unfolding spark_max_def non_null_map_Some xs by simp
qed

lemma spark_min_in:
  "g \<noteq> [] \<Longrightarrow> \<exists>r \<in> set g. spark_min (map (\<lambda>r. Some (f r)) g) = Some (f r)"
proof -
  assume ne: "g \<noteq> []"
  then have "Min (f ` set g) \<in> f ` set g" by (intro Min_in) simp_all
  then show ?thesis unfolding spark_min_Some[OF ne] by (auto simp: image_iff)
qed

lemma spark_max_in:
  "g \<noteq> [] \<Longrightarrow> \<exists>r \<in> set g. spark_max (map (\<lambda>r. Some (f r)) g) = Some (f r)"
proof -
  assume ne: "g \<noteq> []"
  then have "Max (f ` set g) \<in> f ` set g" by (intro Max_in) simp_all
  then show ?thesis unfolding spark_max_Some[OF ne] by (auto simp: image_iff)
qed

lemma min_key_row:
  fixes rows :: "(string \<times> 'v option) list"
  assumes ne: "rows \<noteq> []"
    and len: "\<forall>r \<in> set rows. length (fst r) = n"
  shows "\<exists>r \<in> set rows.
           spark_min (map (\<lambda>r. Some (fst r)) rows) = Some (fst r) \<and>
           spark_min (map (\<lambda>r. Some (merge_date_and_value fmt (Some (fst r)) (snd r))) rows)
             = Some (merge_date_and_value fmt (Some (fst r)) (snd r))"
proof -
  let ?key = "\<lambda>r. merge_date_and_value fmt (Some (fst r)) (snd r)"
  have fin: "finite (?key ` set rows)" and nem: "?key ` set rows \<noteq> {}" using ne by simp_all
  from Min_in[OF fin nem] obtain r where r: "r \<in> set rows" "Min (?key ` set rows) = ?key r"
    by (auto simp: image_iff)
  have le: "fst r \<le> fst r'" if "r' \<in> set rows" for r'
  proof -
    have "?key r' \<in> ?key ` set rows" using that by (rule imageI)
    from Min_le[OF fin this] have "?key r \<le> ?key r'" unfolding r(2) .
    then have "fst r @ DATE_VALUE_SEPARATOR @ py_format fmt (snd r)
            \<le> fst r' @ DATE_VALUE_SEPARATOR @ py_format fmt (snd r')"
      unfolding merge_Some .
    moreover have "length (fst r) = length (fst r')" using len r(1) that by simp
    ultimately show ?thesis using key_le_imp by blast
  qed
  have "Min (fst ` set rows) = fst r"
  proof (rule Min_eqI)
    show "finite (fst ` set rows)" by simp
    show "\<And>y. y \<in> fst ` set rows \<Longrightarrow> fst r \<le> y" using le by (auto simp: image_iff)
    show "fst r \<in> fst ` set rows" using r(1) by (rule imageI)
  qed
  then have a: "spark_min (map (\<lambda>r. Some (fst r)) rows) = Some (fst r)"
    using spark_min_Some[OF ne, of fst] by simp
  have b: "spark_min (map (\<lambda>r. Some (?key r)) rows) = Some (?key r)"
    using spark_min_Some[OF ne, of ?key] r(2) by simp
  from a b r(1) show ?thesis by blast
qed

lemma max_key_row:
  fixes rows :: "(string \<times> 'v option) list"
  assumes ne: "rows \<noteq> []"
    and len: "\<forall>r \<in> set rows. length (fst r) = n"
  shows "\<exists>r \<in> set rows.
           spark_max (map (\<lambda>r. Some (fst r)) rows) = Some (fst r) \<and>
           spark_max (map (\<lambda>r. Some (merge_date_and_value fmt (Some (fst r)) (snd r))) rows)
             = Some (merge_date_and_value fmt (Some (fst r)) (snd r))"
proof -
  let ?key = "\<lambda>r. merge_date_and_value fmt (Some (fst r)) (snd r)"
  have fin: "finite (?key ` set rows)" and nem: "?key ` set rows \<noteq> {}" using ne by simp_all
  from Max_in[OF fin nem] obtain r where r: "r \<in> set rows" "Max (?key ` set rows) = ?key r"
    by (auto simp: image_iff)
  have le: "fst r' \<le> fst r" if "r' \<in> set rows" for r'
  proof -
    have "?key r' \<in> ?key ` set rows" using that by (rule imageI)
    from Max_ge[OF fin this] have "?key r' \<le> ?key r" unfolding r(2) .
    then have "fst r' @ DATE_VALUE_SEPARATOR @ py_format fmt (snd r')
            \<le> fst r @ DATE_VALUE_SEPARATOR @ py_format fmt (snd r)"
      unfolding merge_Some .
    moreover have "length (fst r') = length (fst r)" using len r(1) that by simp
    ultimately show ?thesis using key_le_imp by blast
  qed
  have "Max (fst ` set rows) = fst r"
  proof (rule Max_eqI)
    show "finite (fst ` set rows)" by simp
    show "\<And>y. y \<in> fst ` set rows \<Longrightarrow> y \<le> fst r" using le by (auto simp: image_iff)
    show "fst r \<in> fst ` set rows" using r(1) by (rule imageI)
  qed
  then have a: "spark_max (map (\<lambda>r. Some (fst r)) rows) = Some (fst r)"
    using spark_max_Some[OF ne, of fst] by simp
  have b: "spark_max (map (\<lambda>r. Some (?key r)) rows) = Some (?key r)"
    using spark_max_Some[OF ne, of ?key] r(2) by simp
  from a b r(1) show ?thesis by blast
qed

section \<open>The round trip through the key\<close>

text \<open>
  Claim C1, as amended. Take rows of a timestamp and a value in which the timestamps have one
  length, no occurrence of the separator starts inside a timestamp, and the printed form of
  no value contains the separator. Encode each row with \<open>merge_date_and_value\<close>. Then the
  second piece of the least key is the printed value of a row whose timestamp is the least
  timestamp, and the second piece of the greatest key is the printed value of a row whose
  timestamp is the greatest. (With distinct timestamps there is one such row.)
\<close>

theorem key_round_trip_fixed_width:
  fixes rows :: "(string \<times> 'v option) list"
  assumes ne: "rows \<noteq> []"
    and ok: "\<forall>r \<in> set rows. length (fst r) = n \<and> sep_safe (fst r) \<and>
               \<not> py_in DATE_VALUE_SEPARATOR (py_format fmt (snd r))"
  shows "(\<exists>r \<in> set rows.
            spark_min (map (\<lambda>r. Some (fst r)) rows) = Some (fst r) \<and>
            second_piece (spark_min (map (\<lambda>r. Some (merge_date_and_value fmt (Some (fst r)) (snd r))) rows))
              = Some (py_format fmt (snd r))) \<and>
         (\<exists>r \<in> set rows.
            spark_max (map (\<lambda>r. Some (fst r)) rows) = Some (fst r) \<and>
            second_piece (spark_max (map (\<lambda>r. Some (merge_date_and_value fmt (Some (fst r)) (snd r))) rows))
              = Some (py_format fmt (snd r)))"
proof -
  have len: "\<forall>r \<in> set rows. length (fst r) = n" using ok by simp
  have dec: "second_piece (Some (merge_date_and_value fmt (Some (fst r)) (snd r))) = Some (py_format fmt (snd r))"
    if "r \<in> set rows" for r
    unfolding merge_Some using ok that by (intro second_piece_key) simp_all
  from min_key_row[OF ne len, of fmt] obtain r1 where r1: "r1 \<in> set rows"
    "spark_min (map (\<lambda>r. Some (fst r)) rows) = Some (fst r1)"
    "spark_min (map (\<lambda>r. Some (merge_date_and_value fmt (Some (fst r)) (snd r))) rows)
       = Some (merge_date_and_value fmt (Some (fst r1)) (snd r1))" by blast
  from max_key_row[OF ne len, of fmt] obtain r2 where r2: "r2 \<in> set rows"
    "spark_max (map (\<lambda>r. Some (fst r)) rows) = Some (fst r2)"
    "spark_max (map (\<lambda>r. Some (merge_date_and_value fmt (Some (fst r)) (snd r))) rows)
       = Some (merge_date_and_value fmt (Some (fst r2)) (snd r2))" by blast
  have "second_piece (spark_min (map (\<lambda>r. Some (merge_date_and_value fmt (Some (fst r)) (snd r))) rows))
          = Some (py_format fmt (snd r1))" unfolding r1(3) using r1(1) by (rule dec)
  moreover have "second_piece (spark_max (map (\<lambda>r. Some (merge_date_and_value fmt (Some (fst r)) (snd r))) rows))
          = Some (py_format fmt (snd r2))" unfolding r2(3) using r2(1) by (rule dec)
  ultimately show ?thesis using r1(1,2) r2(1,2) by blast
qed

text \<open>The theorem at two rows, given in the order of the later one first: the least and the
  greatest timestamp are found with their values.\<close>

theorem key_round_trip_fixed_width_witness:
  "ex_rows \<noteq> [] \<and>
   spark_min (map (\<lambda>r. Some (fst r)) ex_rows) = Some ''2020-01-01'' \<and>
   second_piece (spark_min (map (\<lambda>r. Some (merge_date_and_value (\<lambda>s. s) (Some (fst r)) (snd r))) ex_rows))
     = Some ''120'' \<and>
   spark_max (map (\<lambda>r. Some (fst r)) ex_rows) = Some ''2020-06-01'' \<and>
   second_piece (spark_max (map (\<lambda>r. Some (merge_date_and_value (\<lambda>s. s) (Some (fst r)) (snd r))) ex_rows))
     = Some ''140''"
proof -
  have ne: "ex_rows \<noteq> []" by (simp add: ex_rows_def)
  have ok: "\<forall>r \<in> set ex_rows. length (fst r) = 10 \<and> sep_safe (fst r) \<and>
              \<not> py_in DATE_VALUE_SEPARATOR (py_format (\<lambda>s. s) (snd r))"
    by (simp add: ex_rows_def sep_safe_def DATE_VALUE_SEPARATOR_def py_format_def)
  have mn: "spark_min (map (\<lambda>r. Some (fst r)) ex_rows) = Some ''2020-01-01''"
    by (simp add: ex_rows_def spark_min_def non_null_simps)
  have mx: "spark_max (map (\<lambda>r. Some (fst r)) ex_rows) = Some ''2020-06-01''"
    by (simp add: ex_rows_def spark_max_def non_null_simps)
  from key_round_trip_fixed_width[OF ne ok] mn mx ne show ?thesis
    by (auto simp: ex_rows_def py_format_def)
qed

text \<open>
  Claim C1 as it is stated, for every timestamp, fails in two ways. A timestamp that holds
  the separator is split inside: the second piece of the only key is a part of the timestamp,
  not the value. And between timestamps of different lengths the keys are not ordered as the
  timestamps are: the least timestamp is \<^verbatim>\<open>2020-01-01\<close>, whose value is 120, but the
  least key is that of the longer timestamp and decodes to 140.
\<close>

theorem key_round_trip_counterexample:
  "\<not> py_in DATE_VALUE_SEPARATOR ''5'' \<and>
   second_piece (spark_min [Some (merge_date_and_value (\<lambda>s. s) (Some ''2020_SeP_01'') (Some ''5''))])
     = Some ''01'' \<and>
   \<not> py_in DATE_VALUE_SEPARATOR ''120'' \<and> \<not> py_in DATE_VALUE_SEPARATOR ''140'' \<and>
   spark_min [Some ''2020-01-01'', Some ''2020-01-01T10:00:00+00:00''] = Some ''2020-01-01'' \<and>
   second_piece (spark_min
     [Some (merge_date_and_value (\<lambda>s. s) (Some ''2020-01-01'') (Some ''120'')),
      Some (merge_date_and_value (\<lambda>s. s) (Some ''2020-01-01T10:00:00+00:00'') (Some ''140''))])
     = Some ''140''"
  by (simp add: spark_min_def non_null_simps merge_date_and_value_def py_format_def second_piece_def
      split_pieces_def DATE_VALUE_SEPARATOR_def)

section \<open>The predicate compiler\<close>




text \<open>
  Claim C8. The encounter predicate is the conjunction of the location, type-code and
  type-system conditions, each of which is \<^verbatim>\<open>TRUE\<close> when its constraint is absent; and a
  time window with neither bound compiles to \<^verbatim>\<open>TRUE\<close>.
\<close>

theorem absent_filters_compile_to_TRUE:
  "encounter_constraints_sql e =
     loc_str e @ '' AND '' @ type_code_str e @ '' AND '' @ type_sys_str e \<and>
   (ec_location_id e = None \<longrightarrow> loc_str e = ''TRUE'') \<and>
   (ec_type_code e = None \<longrightarrow> type_code_str e = ''TRUE'') \<and>
   (ec_type_system e = None \<longrightarrow> type_sys_str e = ''TRUE'') \<and>
   time_constraint None None = ''TRUE''"
  by (simp add: encounter_constraints_sql_def loc_str_def type_code_str_def type_sys_str_def
      time_constraint_def truthy_str_def truthy_list_def)

theorem absent_filters_compile_to_TRUE_witness:
  "encounter_constraints_sql (EncounterContraints None None None) = ''TRUE AND TRUE AND TRUE'' \<and>
   encounter_constraints_sql (EncounterContraints (Some [''L1'']) None None) =
     loc_str (EncounterContraints (Some [''L1'']) None None) @ '' AND TRUE AND TRUE''"
proof -
  have n: "ec_location_id (EncounterContraints None None None) = None"
    "ec_type_code (EncounterContraints None None None) = None"
    "ec_type_system (EncounterContraints None None None) = None"
    "ec_type_code (EncounterContraints (Some [''L1'']) None None) = None"
    "ec_type_system (EncounterContraints (Some [''L1'']) None None) = None"
    by (simp_all add: EncounterContraints_def)
  from absent_filters_compile_to_TRUE[of "EncounterContraints None None None"]
    absent_filters_compile_to_TRUE[of "EncounterContraints (Some [''L1'']) None None"] n
  show ?thesis by simp
qed

section \<open>Adding constraints\<close>

text \<open>
  Claim C5. When the code is already a key of the constraint map, both constraint-adding
  methods raise the error for a duplicate constraint (a \<^verbatim>\<open>ValueError\<close> whose message
  names the code), and the state of the query after the call is the state before it, so the
  constraint stored for the code is unchanged.
\<close>

theorem duplicate_constraint_raises:
  "code \<in> set (map fst (code_constraint q)) \<Longrightarrow>
   include_obs_in_value_and_time_range code min_val max_val min_time max_time q =
     (Some (ValueError (''Duplicate constraints for code '' @ code)), q) \<and>
   include_obs_values_in_time_range code vals min_time max_time q =
     (Some (ValueError (''Duplicate constraints for code '' @ code)), q)"
  by (simp add: include_obs_in_value_and_time_range_def include_obs_values_in_time_range_def)

theorem duplicate_constraint_raises_witness:
  "fst (include_obs_in_value_and_time_range ''8480-6'' (Some 100) (Some 150) None None
          (new_query SparkPatientQuery ''/data'' None :: int patient_query)) = None \<and>
   (let q = snd (include_obs_in_value_and_time_range ''8480-6'' (Some 100) (Some 150) None None
                   (new_query SparkPatientQuery ''/data'' None :: int patient_query))
    in include_obs_values_in_time_range ''8480-6'' (Some [''a'']) None None q =
         (Some (ValueError ''Duplicate constraints for code 8480-6''), q) \<and>
       include_obs_in_value_and_time_range ''8480-6'' None (Some 9) None None q =
         (Some (ValueError ''Duplicate constraints for code 8480-6''), q))"
proof -
  define q where "q = snd (include_obs_in_value_and_time_range ''8480-6'' (Some 100) (Some 150) None None
                   (new_query SparkPatientQuery ''/data'' None :: int patient_query))"
  have f: "fst (include_obs_in_value_and_time_range ''8480-6'' (Some 100) (Some 150) None None
          (new_query SparkPatientQuery ''/data'' None :: int patient_query)) = None"
    by (simp add: include_obs_in_value_and_time_range_def new_query_def)
  have m: "''8480-6'' \<in> set (map fst (code_constraint q))"
    by (simp add: q_def include_obs_in_value_and_time_range_def new_query_def)
  from duplicate_constraint_raises[OF m, where min_val = None and max_val = "Some 9" and
      min_time = None and max_time = None and vals = "Some [''a'']"] f
  show ?thesis unfolding q_def[symmetric] Let_def by simp
qed

section \<open>The backends\<close>

text \<open>
  Claim C9. A query made by the factory for the runner \<open>BIG_QUERY\<close> is of the BigQuery
  class, and for every query of that class, whatever its constraints and inputs, the
  observation view raises \<^verbatim>\<open>NotImplementedError\<close> (the class does not override the
  method of the base class). The encounter view is implemented: the encounter constraint of
  such a query is of the BigQuery class, when it is made and after it is set, and with it the
  encounter view returns the frame of the BigQuery client.
\<close>

theorem bigquery_obs_view_not_implemented:
  "patient_query_factory BIG_QUERY data_source cs = Inr q0 \<Longrightarrow> pq_class q = pq_class q0 \<Longrightarrow>
   get_patient_obs_view eng q src base_url =
     Inl (NotImplementedError ''This should be implemented by sub-classes!'') \<and>
   enc_constraint q0 = BigQueryEncounterConstraints_obj (BigQueryEncounterConstraints None None None) \<and>
   enc_constraint (encounter_constraints location_ids type_system type_codes q) =
     BigQueryEncounterConstraints_obj (BigQueryEncounterConstraints location_ids type_system type_codes) \<and>
   (enc_constraint q = BigQueryEncounterConstraints_obj b \<longrightarrow>
      get_patient_encounter_view eng client_query q src base_url force =
        Inr (BigQueryFrame (client_query
          (build_encounter_query (pq_data_source q) base_url ''encounter''
             (bq_location_ids b) (bq_type_system b) (bq_type_codes b) force))))"
  by (auto simp: get_patient_obs_view_def get_patient_encounter_view_def new_query_def
      encounter_constraints_def)

theorem bigquery_obs_view_not_implemented_witness:
  "patient_query_factory BIG_QUERY ''dataset'' None =
     Inr (new_query BigQueryPatientQuery ''dataset'' None :: int patient_query) \<and>
   get_patient_obs_view ex_engine
     (include_all_other_codes True None None (new_query BigQueryPatientQuery ''dataset'' None))
     (ex_source []) ''http://x/'' =
     Inl (NotImplementedError ''This should be implemented by sub-classes!'') \<and>
   (\<exists>f. get_patient_encounter_view ex_engine (\<lambda>text. length text)
     (include_all_other_codes True None None (new_query BigQueryPatientQuery ''dataset'' None))
     (ex_source []) ''http://x/'' True = Inr (BigQueryFrame f))"
proof -
  let ?q = "include_all_other_codes True None None
             (new_query BigQueryPatientQuery ''dataset'' None :: int patient_query)"
  have a: "patient_query_factory BIG_QUERY ''dataset'' None =
     Inr (new_query BigQueryPatientQuery ''dataset'' None :: int patient_query)" by simp
  have b: "pq_class ?q = pq_class (new_query BigQueryPatientQuery ''dataset'' None :: int patient_query)"
    by (simp add: include_all_other_codes_def)
  have c: "enc_constraint ?q =
             BigQueryEncounterConstraints_obj (BigQueryEncounterConstraints None None None)"
    by (simp add: include_all_other_codes_def new_query_def)
  from bigquery_obs_view_not_implemented[OF a b, where eng = ex_engine and src = "ex_source []"
      and base_url = "''http://x/''" and client_query = "\<lambda>text. length text" and force = True
      and b = "BigQueryEncounterConstraints None None None"] a c
  show ?thesis by blast
qed

section \<open>The rows of the observation view\<close>

lemma str_split_expand_1_Inr:
  "str_split_expand_1 col = Inr x \<Longrightarrow> x = map second_piece col"
  by (auto simp: str_split_expand_1_def split: if_splits)

lemma zip_view_map:
  "zip_view df (map f1 df) (map f2 df) (map f3 df) (map f4 df)
     = map (\<lambda>r. view_row r (f1 r) (f2 r) (f3 r) (f4 r)) df"
  by (induction df) simp_all

lemma add_first_last_values_Inr:
  assumes "add_first_last_values df = Inr rows"
  shows "rows = map (\<lambda>r. view_row r (second_piece (pa_max_date_value r))
                                  (second_piece (pa_min_date_value r))
                                  (second_piece (pa_max_date_value_code r))
                                  (second_piece (pa_min_date_value_code r))) df"
proof -
  from assms obtain lv fv lvc fvc where
    s: "str_split_expand_1 (map pa_max_date_value df) = Inr lv"
       "str_split_expand_1 (map pa_min_date_value df) = Inr fv"
       "str_split_expand_1 (map pa_max_date_value_code df) = Inr lvc"
       "str_split_expand_1 (map pa_min_date_value_code df) = Inr fvc"
    and rows: "rows = zip_view df lv fv lvc fvc"
    by (auto simp: add_first_last_values_def split: sum.splits)
  from s have "lv = map (\<lambda>r. second_piece (pa_max_date_value r)) df"
    "fv = map (\<lambda>r. second_piece (pa_min_date_value r)) df"
    "lvc = map (\<lambda>r. second_piece (pa_max_date_value_code r)) df"
    "fvc = map (\<lambda>r. second_piece (pa_min_date_value_code r)) df"
    by (auto dest!: str_split_expand_1_Inr)
  then show ?thesis unfolding rows by (simp only: zip_view_map)
qed

lemma join_patients_agg_obs_row:
  assumes "r \<in> set (join_patients_agg_obs eng ps agg url)"
  shows "\<exists>a \<in> set agg. pa_min_value r = min_value a \<and> pa_max_value r = max_value a \<and>
           pa_min_date r = min_date a \<and> pa_max_date r = max_date a \<and>
           pa_min_date_value r = min_date_value a \<and> pa_max_date_value r = max_date_value a \<and>
           pa_num_obs r = num_obs a"
  using assms by (auto simp: join_patients_agg_obs_def)

lemma aggregate_patient_codes_row:
  assumes "a \<in> set (aggregate_patient_codes flat)"
  shows "\<exists>k g. a = agg_group k g \<and> g \<noteq> [] \<and> set g \<subseteq> set flat"
proof -
  let ?key = "\<lambda>r. (fo_patientId r, fo_coding r)"
  from assms obtain k where k: "k \<in> set (map ?key flat)"
    and a: "a = agg_group k (filter (\<lambda>r. ?key r = k) flat)"
    by (auto simp: aggregate_patient_codes_def)
  from k obtain r where "r \<in> set flat" "?key r = k" by auto
  then have "filter (\<lambda>r. ?key r = k) flat \<noteq> []" by (auto simp: filter_empty_conv)
  with a show ?thesis by (intro exI[of _ k] exI[of _ "filter (\<lambda>r. ?key r = k) flat"]) auto
qed

lemma obs_enc_join_fst: "set (map fst (filter P (obs_enc_join fo fe))) \<subseteq> set fo"
  by (auto simp: obs_enc_join_def)

lemma flatten_obs_row:
  assumes "r \<in> set (flatten_obs fmt obs cs)"
  shows "\<exists>ob \<in> set obs.
           fo_dateAndValue r =
             merge_date_and_value fmt (effective_dateTime ob) (quantity_value (obs_value ob)) \<and>
           fo_value r = obs_value ob \<and> fo_dateTime r = effective_dateTime ob"
  using assms by (auto simp: flatten_obs_def flatten_one_obs_def)

text \<open>A group of flat rows none of which has a numeric value: the numeric extrema are null,
  and the least and the greatest key both decode to the word None.\<close>

lemma group_without_numeric_value:
  fixes g :: "('n::linorder) flat_obs list"
  assumes ne: "g \<noteq> []"
    and sub: "set g \<subseteq> set (flatten_obs fmt obs cs)"
    and safe: "\<forall>ob \<in> set obs. sep_safe (py_format (\<lambda>s. s) (effective_dateTime ob))"
    and null: "min_value (agg_group k g) = None"
  shows "max_value (agg_group k g) = None \<and>
         second_piece (min_date_value (agg_group k g)) = Some ''None'' \<and>
         second_piece (max_date_value (agg_group k g)) = Some ''None''"
proof -
  from null have all_null: "\<forall>r \<in> set g. quantity_value (fo_value r) = None"
    by (simp add: agg_group_def spark_min_None_iff)
  then have mx: "max_value (agg_group k g) = None"
    by (simp add: agg_group_def spark_max_None_iff)
  have dec: "second_piece (Some (fo_dateAndValue r)) = Some ''None''" if "r \<in> set g" for r
  proof -
    from that sub flatten_obs_row[of r fmt obs cs] obtain ob where ob: "ob \<in> set obs"
      "fo_dateAndValue r =
         merge_date_and_value fmt (effective_dateTime ob) (quantity_value (obs_value ob))"
      "fo_value r = obs_value ob" by blast
    from all_null that have "quantity_value (fo_value r) = None" by blast
    then have "quantity_value (obs_value ob) = None" unfolding ob(3) .
    with ob(2) have "fo_dateAndValue r =
        py_format (\<lambda>s. s) (effective_dateTime ob) @ DATE_VALUE_SEPARATOR @ ''None''"
      by (simp add: merge_null_value)
    moreover from safe ob(1) have "sep_safe (py_format (\<lambda>s. s) (effective_dateTime ob))" by blast
    ultimately show ?thesis using second_piece_key[OF _ None_word_no_sep] by simp
  qed
  from spark_min_in[OF ne, of fo_dateAndValue] obtain r1 where
    "r1 \<in> set g" "spark_min (map (\<lambda>r. Some (fo_dateAndValue r)) g) = Some (fo_dateAndValue r1)"
    by blast
  then have mn': "second_piece (min_date_value (agg_group k g)) = Some ''None''"
    using dec by (simp add: agg_group_def)
  from spark_max_in[OF ne, of fo_dateAndValue] obtain r2 where
    "r2 \<in> set g" "spark_max (map (\<lambda>r. Some (fo_dateAndValue r)) g) = Some (fo_dateAndValue r2)"
    by blast
  then have mx': "second_piece (max_date_value (agg_group k g)) = Some ''None''"
    using dec by (simp add: agg_group_def)
  from mx mn' mx' show ?thesis by simp
qed

lemma patient_agg_obs_df_Inr:
  fixes eng :: "('n::{linorder,zero}) engine"
  assumes "patient_agg_obs_df eng q src base_url = Inr df"
  shows "\<exists>flat_encs constraints.
           df = join_patients_agg_obs eng (src_Patient src)
                  (aggregate_patient_codes (map fst
                     (filter (where_join eng constraints)
                        (obs_enc_join
                           (flatten_obs (fmt_num eng) (src_Observation src) (code_system q))
                           flat_encs))))
                  (base_url @ ''Patient/'')"
  using assms by (auto simp: patient_agg_obs_df_def Let_def split: sum.splits)

lemma obs_view_row_origin:
  fixes eng :: "('n::{linorder,zero}) engine"
  assumes view: "get_patient_obs_view eng q src base_url = Inr rows"
    and row: "row \<in> set rows"
  shows "\<exists>k g. g \<noteq> [] \<and>
           set g \<subseteq> set (flatten_obs (fmt_num eng) (src_Observation src) (code_system q)) \<and>
           v_min_value row = min_value (agg_group k g) \<and>
           v_max_value row = max_value (agg_group k g) \<and>
           v_first_value row = second_piece (min_date_value (agg_group k g)) \<and>
           v_last_value row = second_piece (max_date_value (agg_group k g))"
proof -
  from view obtain df where df: "patient_agg_obs_df eng q src base_url = Inr df"
    and v: "add_first_last_values df = Inr rows"
    by (cases "pq_class q") (auto simp: get_patient_obs_view_def split: sum.splits)
  from add_first_last_values_Inr[OF v] row obtain r where
    r: "r \<in> set df"
    and rw: "row = view_row r (second_piece (pa_max_date_value r))
                   (second_piece (pa_min_date_value r))
                   (second_piece (pa_max_date_value_code r))
                   (second_piece (pa_min_date_value_code r))"
    by auto
  let ?flat = "flatten_obs (fmt_num eng) (src_Observation src) (code_system q)"
  from patient_agg_obs_df_Inr[OF df] obtain flat_encs constraints where
    d: "df = join_patients_agg_obs eng (src_Patient src)
              (aggregate_patient_codes (map fst
                 (filter (where_join eng constraints) (obs_enc_join ?flat flat_encs))))
              (base_url @ ''Patient/'')"
    by blast
  let ?join = "filter (where_join eng constraints) (obs_enc_join ?flat flat_encs)"
  from r d have "r \<in> set (join_patients_agg_obs eng (src_Patient src)
                   (aggregate_patient_codes (map fst ?join)) (base_url @ ''Patient/''))"
    by simp
  from join_patients_agg_obs_row[OF this] obtain a where
    a: "a \<in> set (aggregate_patient_codes (map fst ?join))"
    and f: "pa_min_value r = min_value a" "pa_max_value r = max_value a"
       "pa_min_date_value r = min_date_value a" "pa_max_date_value r = max_date_value a"
    by blast
  from aggregate_patient_codes_row[OF a] obtain k g where
    g: "a = agg_group k g" "g \<noteq> []" "set g \<subseteq> set (map fst ?join)" by blast
  from g(3) obs_enc_join_fst have "set g \<subseteq> set ?flat" by blast
  with g(1,2) f rw show ?thesis
    by (intro exI[of _ k] exI[of _ g]) (simp add: view_row_def)
qed

section \<open>Observations without a numeric value\<close>

text \<open>
  Claim C10, as amended. For an observation whose numeric value is null, the date-value key of each of
  its flat rows is the timestamp, the separator and the word None. Consequently, in the
  observation view (with timestamps in which no occurrence of the separator starts, as in
  every ISO-8601 timestamp), a row of a group in which no row has a numeric value, which is a
  row whose \<^verbatim>\<open>min_value\<close> is null, has a null \<^verbatim>\<open>max_value\<close> too, while its
  \<^verbatim>\<open>first_value\<close> and \<^verbatim>\<open>last_value\<close> are the string None, not a null.
\<close>

theorem null_value_yields_None_string:
  fixes eng :: "('n::{linorder,zero}) engine"
  shows
  "(quantity_value (obs_value ob) = None \<longrightarrow>
      (\<forall>r \<in> set (flatten_one_obs fmt cs ob).
         fo_dateAndValue r =
           py_format (\<lambda>s. s) (effective_dateTime ob) @ DATE_VALUE_SEPARATOR @ ''None'')) \<and>
   (min_value (agg_group k (g :: 'n flat_obs list)) = None \<longleftrightarrow>
      (\<forall>r \<in> set g. quantity_value (fo_value r) = None)) \<and>
   (get_patient_obs_view eng q src base_url = Inr rows \<and>
    (\<forall>ob \<in> set (src_Observation src). sep_safe (py_format (\<lambda>s. s) (effective_dateTime ob))) \<and>
    row \<in> set rows \<and> v_min_value row = None \<longrightarrow>
      v_max_value row = None \<and>
      v_first_value row = Some ''None'' \<and> v_last_value row = Some ''None'')"
proof -
  have a: "quantity_value (obs_value ob) = None \<longrightarrow>
      (\<forall>r \<in> set (flatten_one_obs fmt cs ob).
         fo_dateAndValue r =
           py_format (\<lambda>s. s) (effective_dateTime ob) @ DATE_VALUE_SEPARATOR @ ''None'')"
    by (auto simp: flatten_one_obs_def merge_null_value)
  have b: "min_value (agg_group k g) = None \<longleftrightarrow> (\<forall>r \<in> set g. quantity_value (fo_value r) = None)"
    by (simp add: agg_group_def spark_min_None_iff)
  have c: "v_max_value row = None \<and> v_first_value row = Some ''None'' \<and>
        v_last_value row = Some ''None''"
    if view: "get_patient_obs_view eng q src base_url = Inr rows"
    and safe: "\<forall>ob \<in> set (src_Observation src). sep_safe (py_format (\<lambda>s. s) (effective_dateTime ob))"
    and row: "row \<in> set rows" and null: "v_min_value row = None"
  proof -
    from obs_view_row_origin[OF view row] obtain k' g' where
      g: "g' \<noteq> []"
         "set g' \<subseteq> set (flatten_obs (fmt_num eng) (src_Observation src) (code_system q))"
      and f: "v_min_value row = min_value (agg_group k' g')"
         "v_max_value row = max_value (agg_group k' g')"
         "v_first_value row = second_piece (min_date_value (agg_group k' g'))"
         "v_last_value row = second_piece (max_date_value (agg_group k' g'))"
      by blast
    from null f(1) have "min_value (agg_group k' g') = None" by simp
    from group_without_numeric_value[OF g safe this] f
    show ?thesis by simp
  qed
  from a b c show ?thesis by blast
qed

section \<open>The views on the example data\<close>

lemmas ex_data_defs =
  ex_engine_def ex_coding_def ex_obs_def ex_locations_def ex_encounter_def ex_types_def
  ex_patient_def ex_source_def ex_query_def include_all_other_codes_def new_query_def
  EncounterContraints_def

lemmas enc_sql_defs =
  encounter_constraints_sql_def loc_str_def type_code_str_def type_sys_str_def
  truthy_str_def truthy_list_def

lemmas call_defs = call_has_location_def call_has_type_def call_sql_def

lemma ex_flat_obs:
  "flatten_obs show_int [ex_obs t1 v1, ex_obs t2 v2] None =
    [\<lparr>fo_coding = ex_coding,
         fo_valueCoding = None,
         fo_value = \<lparr>quantity_value = v1, codeableConcept_coding = None\<rparr>,
         fo_patientId = Some ''P1'', fo_dateTime = Some t1,
         fo_dateAndValue = merge_date_and_value show_int (Some t1) v1,
         fo_dateAndValueCode = merge_date_and_value (\<lambda>s. s) (Some t1) None,
         fo_encounterId = Some ''E1''\<rparr>,
      \<lparr>fo_coding = ex_coding,
         fo_valueCoding = None,
         fo_value = \<lparr>quantity_value = v2, codeableConcept_coding = None\<rparr>,
         fo_patientId = Some ''P1'', fo_dateTime = Some t2,
         fo_dateAndValue = merge_date_and_value show_int (Some t2) v2,
         fo_dateAndValueCode = merge_date_and_value (\<lambda>s. s) (Some t2) None,
         fo_encounterId = Some ''E1''\<rparr>]"
  by (simp add: ex_data_defs flatten_obs_def flatten_one_obs_def explode_def explode_outer_def
      sys_str_holds_def value_sys_str_holds_def truthy_str_def)

lemma ex_flat_enc:
  "flatten_encounter ex_engine ex_query [ex_encounter tys] ''http://x/Encounter/'' False =
     Inr [\<lparr>fe_encounterId = ''E1'', fe_encPatientId = Some ''P1'',
         fe_first = Some ''2020-01-01'', fe_last = Some ''2020-06-01'',
         fe_locationFlat = None, fe_typeFlat = None\<rparr>]"
  by (simp add: ex_data_defs flatten_encounter_def flatten_one_encounter_def call_defs
      has_location_def has_type_def enc_sql_defs)

lemma ex_query_fields:
  "pq_class ex_query = SparkPatientQuery"
  "code_system ex_query = None" "code_constraint ex_query = []" "include_all_codes ex_query"
  "enc_constraint ex_query = EncounterContraints_obj (EncounterContraints None None None)"
  "all_constraints_sql show_int ex_query = Inr ''TRUE AND TRUE AND TRUE AND TRUE''"
  "fmt_num ex_engine = show_int"
  "where_join ex_engine = (\<lambda>t r. take 5 t \<noteq> ''FALSE'')"
  "regexp_replace ex_engine ''http://x/Patient/P1'' ''http://x/Patient/'' = ''P1''"
  by (simp_all add: ex_data_defs enc_sql_defs call_defs all_constraints_sql_def
      all_obs_constraints_def)

lemma ex_source_fields:
  "src_Patient (ex_source obs) = [ex_patient]" "src_Observation (ex_source obs) = obs"
  "src_Encounter (ex_source obs) = [ex_encounter []]"
  by (simp_all add: ex_source_def)

text \<open>The aggregated frame for two observations of the example patient and code, with any
  timestamps and values.\<close>

lemma ex_patient_agg_obs_df:
  "patient_agg_obs_df ex_engine ex_query (ex_source [ex_obs t1 v1, ex_obs t2 v2]) ''http://x/'' =
     Inr [\<lparr>pa_patientId = Some ''P1'', pa_birthDate = Some ''1980-02-03'',
         pa_gender = Some ''female'', pa_code = Some ''8480-6'',
         pa_num_obs = 2, pa_min_value = spark_min [v1, v2],
         pa_max_value = spark_max [v1, v2],
         pa_min_date = spark_min [Some t1, Some t2],
         pa_max_date = spark_max [Some t1, Some t2],
         pa_min_date_value =
           spark_min [Some (merge_date_and_value show_int (Some t1) v1),
                      Some (merge_date_and_value show_int (Some t2) v2)],
         pa_max_date_value =
           spark_max [Some (merge_date_and_value show_int (Some t1) v1),
                      Some (merge_date_and_value show_int (Some t2) v2)],
         pa_min_date_value_code =
           spark_min [Some (merge_date_and_value (\<lambda>s. s) (Some t1) None),
                      Some (merge_date_and_value (\<lambda>s. s) (Some t2) None)],
         pa_max_date_value_code =
           spark_max [Some (merge_date_and_value (\<lambda>s. s) (Some t1) None),
                      Some (merge_date_and_value (\<lambda>s. s) (Some t2) None)]\<rparr>]"
  by (simp add: patient_agg_obs_df_def Let_def ex_source_fields ex_query_fields ex_flat_obs
      ex_flat_enc obs_enc_join_def aggregate_patient_codes_def agg_group_def
      join_patients_agg_obs_def ex_patient_def ex_coding_def)

lemmas key_eval_defs =
  spark_min_def spark_max_def non_null_simps merge_date_and_value_def py_format_def
  show_int_def show_nat.simps DATE_VALUE_SEPARATOR_def add_first_last_values_def
  str_split_expand_1_def split_pieces_def second_piece_def view_row_def

section \<open>First and last value between timestamps of different widths\<close>

text \<open>
  Claim C2 at two observations of one patient and code whose timestamps are a date and a
  time on that date, both well-formed FHIR timestamps, with values 120 and 140. The date is
  the lesser timestamp, and \<^verbatim>\<open>min_date\<close> is the date. But the key of the longer timestamp
  is the lesser key, because the letter T comes before the underscore of the separator, so
  \<^verbatim>\<open>first_value\<close> is 140, the value of the later observation, and \<^verbatim>\<open>last_value\<close> is
  120. The result is the same for both orders of the two observations.
\<close>

theorem first_value_with_timestamps_of_different_widths:
  "''2020-01-01'' < ''2020-01-01T10:00:00+00:00'' \<and>
   get_patient_obs_view ex_engine ex_query
     (ex_source [ex_obs ''2020-01-01'' (Some 120), ex_obs ''2020-01-01T10:00:00+00:00'' (Some 140)])
     ''http://x/'' =
   Inr [\<lparr>v_patientId = Some ''P1'', v_birthDate = Some ''1980-02-03'',
         v_gender = Some ''female'', v_code = Some ''8480-6'',
         v_num_obs = 2, v_min_value = Some 120,
         v_max_value = Some 140, v_min_date = Some ''2020-01-01'',
         v_max_date = Some ''2020-01-01T10:00:00+00:00'',
         v_first_value = Some ''140'', v_last_value = Some ''120'',
         v_first_value_code = Some ''None'',
         v_last_value_code = Some ''None''\<rparr>] \<and>
   get_patient_obs_view ex_engine ex_query
     (ex_source [ex_obs ''2020-01-01T10:00:00+00:00'' (Some 140), ex_obs ''2020-01-01'' (Some 120)])
     ''http://x/'' =
   get_patient_obs_view ex_engine ex_query
     (ex_source [ex_obs ''2020-01-01'' (Some 120), ex_obs ''2020-01-01T10:00:00+00:00'' (Some 140)])
     ''http://x/''"
  by (simp add: get_patient_obs_view_def ex_query_fields ex_patient_agg_obs_df key_eval_defs)

text \<open>The third part of the theorem for claim C10 at two observations without a numeric
  value: the view has one row, its numeric extrema are null, and its first and last value
  are the string None.\<close>

theorem null_value_yields_None_string_witness:
  "get_patient_obs_view ex_engine ex_query
     (ex_source [ex_obs ''2020-01-01'' None, ex_obs ''2020-06-01'' None]) ''http://x/'' =
   Inr [\<lparr>v_patientId = Some ''P1'', v_birthDate = Some ''1980-02-03'',
         v_gender = Some ''female'', v_code = Some ''8480-6'',
         v_num_obs = 2, v_min_value = None,
         v_max_value = None, v_min_date = Some ''2020-01-01'',
         v_max_date = Some ''2020-06-01'',
         v_first_value = Some ''None'', v_last_value = Some ''None'',
         v_first_value_code = Some ''None'',
         v_last_value_code = Some ''None''\<rparr>] \<and>
   fo_dateAndValue (hd (flatten_one_obs show_int None (ex_obs ''2020-01-01'' None))) =
     ''2020-01-01_SeP_None''"
proof -
  let ?src = "ex_source [ex_obs ''2020-01-01'' None, ex_obs ''2020-06-01'' None]"
  let ?row = "\<lparr>v_patientId = Some ''P1'', v_birthDate = Some ''1980-02-03'',
         v_gender = Some ''female'', v_code = Some ''8480-6'',
         v_num_obs = 2, v_min_value = None :: int option,
         v_max_value = None, v_min_date = Some ''2020-01-01'',
         v_max_date = Some ''2020-06-01'',
         v_first_value = Some ''None'', v_last_value = Some ''None'',
         v_first_value_code = Some ''None'',
         v_last_value_code = Some ''None''\<rparr>"
  have view: "get_patient_obs_view ex_engine ex_query ?src ''http://x/'' = Inr [?row]"
    by (simp add: get_patient_obs_view_def ex_query_fields ex_patient_agg_obs_df key_eval_defs)
  have safe: "\<forall>ob \<in> set (src_Observation ?src).
                sep_safe (py_format (\<lambda>s. s) (effective_dateTime ob))"
    by (simp add: ex_source_fields ex_obs_def py_format_def sep_safe_def DATE_VALUE_SEPARATOR_def)
  have row: "?row \<in> set [?row]" by simp
  have null: "v_min_value ?row = None" by simp
  have qn: "quantity_value (obs_value (ex_obs ''2020-01-01'' None)) = None"
    by (simp add: ex_obs_def)
  have fl: "hd (flatten_one_obs show_int None (ex_obs ''2020-01-01'' None))
              \<in> set (flatten_one_obs show_int None (ex_obs ''2020-01-01'' None))"
    by (simp add: ex_obs_def ex_coding_def flatten_one_obs_def explode_def explode_outer_def
        sys_str_holds_def value_sys_str_holds_def truthy_str_def)
  from null_value_yields_None_string[where eng = ex_engine and q = ex_query and src = "?src"
      and base_url = "''http://x/''" and rows = "[?row]" and row = "?row"
      and ob = "ex_obs ''2020-01-01'' None" and fmt = show_int and cs = None]
    view safe row null qn fl
  have "fo_dateAndValue (hd (flatten_one_obs show_int None (ex_obs ''2020-01-01'' None))) =
          py_format (\<lambda>s. s) (effective_dateTime (ex_obs ''2020-01-01'' None)) @
          DATE_VALUE_SEPARATOR @ ''None''"
    by blast
  then have "fo_dateAndValue (hd (flatten_one_obs show_int None (ex_obs ''2020-01-01'' None))) =
     ''2020-01-01_SeP_None''"
    by (simp add: ex_obs_def py_format_def DATE_VALUE_SEPARATOR_def)
  with view show ?thesis by simp
qed

text \<open>
  Claim C10 as it is stated, for every observation, fails on a timestamp that holds the
  separator: the key is split inside the timestamp, and for two observations at
  \<^verbatim>\<open>2020_SeP_01\<close> without a numeric value the first and the last value are \<^verbatim>\<open>01\<close>, a
  part of the timestamp, not the string None.
\<close>

theorem null_value_counterexample:
  "get_patient_obs_view ex_engine ex_query
     (ex_source [ex_obs ''2020_SeP_01'' None, ex_obs ''2020_SeP_01'' None]) ''http://x/'' =
   Inr [\<lparr>v_patientId = Some ''P1'', v_birthDate = Some ''1980-02-03'',
         v_gender = Some ''female'', v_code = Some ''8480-6'',
         v_num_obs = 2, v_min_value = None,
         v_max_value = None, v_min_date = Some ''2020_SeP_01'',
         v_max_date = Some ''2020_SeP_01'',
         v_first_value = Some ''01'', v_last_value = Some ''01'',
         v_first_value_code = Some ''01'',
         v_last_value_code = Some ''01''\<rparr>]"
  by (simp add: get_patient_obs_view_def ex_query_fields ex_patient_agg_obs_df key_eval_defs)

section \<open>A query without code constraints\<close>

lemma filter_nothing: "\<forall>x. \<not> P x \<Longrightarrow> filter P xs = []"
  by (induction xs) simp_all

text \<open>
  Claim C3. For a query with no code constraint the compiled observation predicate is the
  constant \<^verbatim>\<open>FALSE\<close> when all other codes are not included and the constant \<^verbatim>\<open>TRUE\<close>
  when they are. With \<^verbatim>\<open>FALSE\<close>, on an engine that takes a conjunction whose first
  conjunct is \<^verbatim>\<open>FALSE\<close> as false on every row, the frame that the Spark stage of the
  observation view computes has no rows. The view does not return this empty result: its
  last step reads column 1 of the split keys, a frame without rows has no such column, and
  the view of a Spark query raises \<^verbatim>\<open>KeyError\<close>, whatever the data.
\<close>

theorem no_codes_view_raises:
  fixes eng :: "('n::{linorder,zero}) engine"
  assumes sp: "pq_class q = SparkPatientQuery"
    and ec: "enc_constraint q = EncounterContraints_obj ec"
    and e: "code_constraint q = []"
  shows
  "all_obs_constraints fmt q = (if include_all_codes q then ''TRUE'' else ''FALSE'') \<and>
   (\<not> include_all_codes q \<and> (\<forall>s r. \<not> where_join eng (''FALSE AND '' @ s) r) \<longrightarrow>
      patient_agg_obs_df eng q src base_url = Inr [] \<and>
      get_patient_obs_view eng q src base_url = Inl (KeyError ''1'') \<and>
      get_patient_obs_view eng q src base_url \<noteq> Inr [])"
proof -
  from e have a: "all_obs_constraints fmt q = (if include_all_codes q then ''TRUE'' else ''FALSE'')"
    by (simp add: all_obs_constraints_def)
  have b: "patient_agg_obs_df eng q src base_url = Inr []"
    if n: "\<not> include_all_codes q" and w: "\<forall>s r. \<not> where_join eng (''FALSE AND '' @ s) r"
  proof -
    from e n ec have s: "all_constraints_sql (fmt_num eng) q =
        Inr (''FALSE AND '' @ encounter_constraints_sql ec)"
      by (simp add: all_constraints_sql_def all_obs_constraints_def call_sql_def)
    from w have "\<forall>r. \<not> where_join eng (''FALSE AND '' @ encounter_constraints_sql ec) r"
      by simp
    from filter_nothing[OF this] s ec show ?thesis
      by (simp add: patient_agg_obs_df_def Let_def aggregate_patient_codes_def
          join_patients_agg_obs_def flatten_encounter_def call_has_location_def
          call_has_type_def call_sql_def)
  qed
  have c: "get_patient_obs_view eng q src base_url = Inl (KeyError ''1'')"
    if "patient_agg_obs_df eng q src base_url = Inr []"
    using sp that
    by (simp add: get_patient_obs_view_def add_first_last_values_def str_split_expand_1_def)
  from a b c show ?thesis by auto
qed

theorem no_codes_view_raises_witness:
  "code_constraint (new_query SparkPatientQuery ''/data'' None :: int patient_query) = [] \<and>
   \<not> include_all_codes (new_query SparkPatientQuery ''/data'' None :: int patient_query) \<and>
   all_obs_constraints show_int (new_query SparkPatientQuery ''/data'' None) = ''FALSE'' \<and>
   patient_agg_obs_df ex_engine (new_query SparkPatientQuery ''/data'' None)
     (ex_source [ex_obs ''2020-01-01'' (Some 120)]) ''http://x/'' = Inr [] \<and>
   get_patient_obs_view ex_engine (new_query SparkPatientQuery ''/data'' None)
     (ex_source [ex_obs ''2020-01-01'' (Some 120)]) ''http://x/'' = Inl (KeyError ''1'')"
proof -
  let ?q = "new_query SparkPatientQuery ''/data'' None :: int patient_query"
  have sp: "pq_class ?q = SparkPatientQuery"
    and ec: "enc_constraint ?q = EncounterContraints_obj (EncounterContraints None None None)"
    and e: "code_constraint ?q = []" and n: "\<not> include_all_codes ?q"
    by (simp_all add: new_query_def)
  have w: "\<forall>s r. \<not> where_join ex_engine (''FALSE AND '' @ s) r"
    by (simp add: ex_engine_def)
  from no_codes_view_raises[OF sp ec e, where fmt = show_int and eng = ex_engine
      and src = "ex_source [ex_obs ''2020-01-01'' (Some 120)]" and base_url = "''http://x/''"]
    e n w
  show ?thesis by simp
qed

section \<open>Flattening observations\<close>









section \<open>Flattening encounters\<close>

lemma no_constraint_object:
  assumes "call_has_location ob = Inr False" and "call_has_type ob = Inr False"
  shows "call_sql ob = Inr ''TRUE AND TRUE AND TRUE''"
proof (cases ob)
  case (EncounterContraints_obj ec)
  with assms have "\<not> has_location ec" "\<not> has_type ec"
    by (simp_all add: call_has_location_def call_has_type_def)
  then have "encounter_constraints_sql ec = ''TRUE AND TRUE AND TRUE''"
    by (simp add: has_location_def has_type_def enc_sql_defs)
  with EncounterContraints_obj show ?thesis by (simp add: call_sql_def)
next
  case (BigQueryEncounterConstraints_obj b)
  with assms(1) show ?thesis by (simp add: call_has_location_def bq_has_location_def)
qed

lemma flatten_encounter_single:
  assumes "call_has_location (enc_constraint q) = Inr False"
    and "call_has_type (enc_constraint q) = Inr False"
    and "\<forall>r. where_enc eng ''TRUE AND TRUE AND TRUE'' r"
  shows "flatten_encounter eng q [e] url force = Inr (flatten_one_encounter eng force force url e)"
  using assms no_constraint_object[OF assms(1,2)] by (simp add: flatten_encounter_def)

lemma length_explode_outer: "length (explode_outer xs) = max 1 (length (explode xs))"
proof (cases xs)
  case None
  then show ?thesis by (simp add: explode_outer_def explode_def)
next
  case (Some ys)
  then show ?thesis by (cases ys) (simp_all add: explode_outer_def explode_def)
qed

text \<open>
  Claim C7, as amended. Take an encounter with three locations, a query with neither a
  location nor a type constraint, and an engine that takes the predicate of an unconstrained
  query as true. Without forced columns the flat encounter view has exactly one row for the
  encounter, without location and type columns, so a flat observation of this encounter
  occurs once in the join of the observation view. With forced columns the encounter has
  three rows for each of its types, that is three times the greater of one and the number
  of its types; it has exactly three rows, one for each location, when it has at most one type.
\<close>

theorem encounter_with_three_locations:
  assumes nl: "call_has_location (enc_constraint q) = Inr False"
    and nt: "call_has_type (enc_constraint q) = Inr False"
    and tr: "\<forall>r. where_enc eng ''TRUE AND TRUE AND TRUE'' r"
    and three: "enc_location e = Some [l1, l2, l3]"
  shows "(\<exists>r. flatten_encounter eng q [e] url False = Inr [r] \<and>
              fe_locationFlat r = None \<and> fe_typeFlat r = None \<and>
              (fo_encounterId ob = Some (regexp_replace eng (enc_id e) url) \<longrightarrow>
                 length (obs_enc_join [ob] [r]) = 1)) \<and>
         (\<exists>rows. flatten_encounter eng q [e] url True = Inr rows \<and>
              length rows = 3 * max 1 (length (explode (enc_type e))) \<and>
              (length (explode (enc_type e)) \<le> 1 \<longrightarrow>
                 map fe_locationFlat rows = [Some (Some l1), Some (Some l2), Some (Some l3)]))"
proof -
  note f = flatten_encounter_single[OF nl nt tr]
  let ?r = "\<lparr>fe_encounterId = regexp_replace eng (enc_id e) url,
        fe_encPatientId = enc_subject_patientId e,
        fe_first = period_start e, fe_last = period_end e,
        fe_locationFlat = None, fe_typeFlat = None\<rparr>"
  have one: "flatten_encounter eng q [e] url False = Inr [?r]"
    unfolding f by (simp add: flatten_one_encounter_def)
  have b: "length (obs_enc_join [ob] [?r]) = 1"
    if "fo_encounterId ob = Some (regexp_replace eng (enc_id e) url)"
    using that by (simp add: obs_enc_join_def)
  from one b have a: "\<exists>r. flatten_encounter eng q [e] url False = Inr [r] \<and>
              fe_locationFlat r = None \<and> fe_typeFlat r = None \<and>
              (fo_encounterId ob = Some (regexp_replace eng (enc_id e) url) \<longrightarrow>
                 length (obs_enc_join [ob] [r]) = 1)"
    by simp
  have locs: "explode_outer (enc_location e) = [Some l1, Some l2, Some l3]"
    using three by (simp add: explode_outer_def)
  have c: "length (flatten_one_encounter eng True True url e) =
             3 * max 1 (length (explode (enc_type e)))"
    by (simp add: flatten_one_encounter_def locs length_explode_outer)
  have d: "map fe_locationFlat (flatten_one_encounter eng True True url e) =
              [Some (Some l1), Some (Some l2), Some (Some l3)]"
    if "length (explode (enc_type e)) \<le> 1"
  proof -
    from that length_explode_outer[of "enc_type e"]
    have "length (explode_outer (enc_type e)) = 1" by simp
    then obtain t where "explode_outer (enc_type e) = [t]"
      by (cases "explode_outer (enc_type e)") auto
    then show ?thesis by (simp add: flatten_one_encounter_def locs)
  qed
  from c d have e: "\<exists>rows. flatten_encounter eng q [e] url True = Inr rows \<and>
              length rows = 3 * max 1 (length (explode (enc_type e))) \<and>
              (length (explode (enc_type e)) \<le> 1 \<longrightarrow>
                 map fe_locationFlat rows = [Some (Some l1), Some (Some l2), Some (Some l3)])"
    unfolding f by simp
  from a e show ?thesis by blast
qed

theorem encounter_with_three_locations_witness:
  "enc_location (ex_encounter []) = Some ex_locations \<and> length ex_locations = 3 \<and>
   map_sum id length
     (flatten_encounter ex_engine ex_query [ex_encounter []] ''http://x/Encounter/'' False) =
     Inr 1 \<and>
   map_sum id (map fe_locationFlat)
     (flatten_encounter ex_engine ex_query [ex_encounter []] ''http://x/Encounter/'' False) =
     Inr [None] \<and>
   map_sum id (\<lambda>rows. length (obs_enc_join [ex_flat_row] rows))
     (flatten_encounter ex_engine ex_query [ex_encounter []] ''http://x/Encounter/'' False) =
     Inr 1 \<and>
   map_sum id length
     (flatten_encounter ex_engine ex_query [ex_encounter []] ''http://x/Encounter/'' True) =
     Inr 3 \<and>
   map_sum id (map fe_locationFlat)
     (flatten_encounter ex_engine ex_query [ex_encounter []] ''http://x/Encounter/'' True) =
     Inr (map (\<lambda>l. Some (Some l)) ex_locations)"
proof -
  let ?l1 = "\<lparr>location_LocationId = Some ''L1'', location_display = Some ''Ward 1''\<rparr>"
  let ?l2 = "\<lparr>location_LocationId = Some ''L2'', location_display = Some ''Ward 2''\<rparr>"
  let ?l3 = "\<lparr>location_LocationId = Some ''L3'', location_display = Some ''Ward 3''\<rparr>"
  have nl: "call_has_location (enc_constraint ex_query) = Inr False"
    and nt: "call_has_type (enc_constraint ex_query) = Inr False"
    by (simp_all add: ex_query_fields call_defs has_location_def has_type_def
        EncounterContraints_def)
  have tr: "\<forall>r. where_enc ex_engine ''TRUE AND TRUE AND TRUE'' r"
    by (simp add: ex_engine_def)
  have three: "enc_location (ex_encounter []) = Some [?l1, ?l2, ?l3]"
    by (simp add: ex_encounter_def ex_locations_def)
  have ty: "length (explode (enc_type (ex_encounter []))) \<le> 1"
    by (simp add: ex_encounter_def explode_def)
  have id: "fo_encounterId ex_flat_row =
      Some (regexp_replace ex_engine (enc_id (ex_encounter [])) ''http://x/Encounter/'')"
    by (simp add: ex_flat_row_def ex_engine_def ex_encounter_def)
  note t = encounter_with_three_locations[OF nl nt tr three,
      where url = "''http://x/Encounter/''" and ob = ex_flat_row]
  from t[THEN conjunct1] obtain r where
    r1: "flatten_encounter ex_engine ex_query [ex_encounter []] ''http://x/Encounter/'' False
           = Inr [r]"
       "fe_locationFlat r = None"
    and rj: "fo_encounterId ex_flat_row =
         Some (regexp_replace ex_engine (enc_id (ex_encounter [])) ''http://x/Encounter/'') \<longrightarrow>
       length (obs_enc_join [ex_flat_row] [r]) = 1"
    by (elim exE conjE)
  from rj id have r1j: "length (obs_enc_join [ex_flat_row] [r]) = 1" by (rule mp)
  from t[THEN conjunct2] obtain rows where
    r2: "flatten_encounter ex_engine ex_query [ex_encounter []] ''http://x/Encounter/'' True
           = Inr rows"
       "length rows = 3 * max 1 (length (explode (enc_type (ex_encounter []))))"
    and r3: "length (explode (enc_type (ex_encounter []))) \<le> 1 \<longrightarrow>
       map fe_locationFlat rows = [Some (Some ?l1), Some (Some ?l2), Some (Some ?l3)]"
    by (elim exE conjE)
  from r2(2) have r2': "length rows = 3"
    by (simp add: ex_encounter_def explode_def)
  from r3 ty have r3': "map fe_locationFlat rows =
      [Some (Some ?l1), Some (Some ?l2), Some (Some ?l3)]" by (rule mp)
  have a: "enc_location (ex_encounter []) = Some ex_locations" "length ex_locations = 3"
    by (simp_all add: ex_encounter_def ex_locations_def)
  show ?thesis unfolding r1(1) r2(1) using a r1(2) r1j r2' r3'
    by (simp add: ex_locations_def)
qed

text \<open>
  Claim C7 as it is stated, for every encounter with three locations, fails on an encounter
  that also has two types: with forced columns and no constraint it is exploded into six
  rows, and the encounter view has six rows of one encounter each. And with a constraint on
  the type system alone (no location constraint, no forced columns) the same encounter has
  two rows in the flat view that the observation view joins.
\<close>

theorem encounter_with_three_locations_counterexample:
  "enc_location (ex_encounter ex_types) = Some ex_locations \<and> length ex_locations = 3 \<and>
   call_has_location (enc_constraint ex_query) = Inr False \<and>
   map_sum id length
     (flatten_encounter ex_engine ex_query [ex_encounter ex_types]
        ''http://x/Encounter/'' True) = Inr 6 \<and>
   map_sum id (map num_encounters)
     (spark_encounter_view ex_engine ex_query
        ((ex_source [])\<lparr>src_Encounter := [ex_encounter ex_types]\<rparr>) ''http://x/'' True) =
     Inr [1, 1, 1, 1, 1, 1] \<and>
   call_has_location (enc_constraint (encounter_constraints None (Some ''S'') None ex_query)) =
     Inr False \<and>
   map_sum id length
     (flatten_encounter ex_engine (encounter_constraints None (Some ''S'') None ex_query)
        [ex_encounter ex_types] ''http://x/Encounter/'' False) = Inr 2"
  by (simp add: ex_data_defs encounter_constraints_def flatten_encounter_def
      flatten_one_encounter_def call_defs has_location_def has_type_def explode_outer_def
      enc_sql_defs spark_encounter_view_def group_encounters_def Let_def location_columns_def
      type_columns_def)


end
